theory Spec2Isabelle
  imports Complex_Main "HOL-Library.AList"
begin

section \<open>Python values, errors and handler effects\<close>

text \<open>
  The handlers of \<^verbatim>\<open>hololinked/protocols/http/server/handlers.py\<close> (the HTTP gateway) and of
  \<^verbatim>\<open>hololinked/server/handlers.py\<close> (the legacy handlers) are tornado request handlers: what
  they do is a sequence of calls on the handler object (\<^verbatim>\<open>set_status\<close>, \<^verbatim>\<open>set_header\<close>,
  \<^verbatim>\<open>write\<close>, \<^verbatim>\<open>flush\<close>, \<^verbatim>\<open>finish\<close>) and on the owning server. The model records these
  calls, in order, as a list of actions. Bytes and text are both \<open>string\<close>.
  \<open>WriteException e\<close> is the \<^verbatim>\<open>write\<close> of the serialized description of the exception
  \<open>e\<close> (\<^verbatim>\<open>format_exception_as_json\<close>, a JSON object and so never empty),
  \<open>WriteExceptionFrame e\<close> the same inside an event frame. \<open>Attempt opn\<close> marks one entry
  into the \<^verbatim>\<open>try\<close> block of \<^verbatim>\<open>handle_through_thing\<close>, \<open>Execute\<close> one call of the legacy
  \<^verbatim>\<open>async_execute\<close> with its instruction, arguments, context and server timeout.

  The request, as far as the handlers read it: the \<^verbatim>\<open>Origin\<close> header (\<^verbatim>\<open>headers.get\<close> gives
  \<^verbatim>\<open>None\<close> when it is absent), the body, and tornado's \<^verbatim>\<open>query_arguments\<close>, a dict from
  parameter name to the list of its values.

  Deserialized values are Python values. A float is the real number it stands for: a
  JSON document has neither NaN nor an infinity, and the only arithmetic the handlers do
  on a value is the comparison \<^verbatim>\<open>timeout < 0\<close>. \<open>PRequest r\<close> is the request object itself,
  which a handler puts among the arguments when the resource asks for it. A Python
  \<^verbatim>\<open>dict\<close> is an association list in insertion order: assigning to a present key keeps
  its position (\<open>AList.update\<close>), \<^verbatim>\<open>pop\<close> removes the key (\<open>AList.delete\<close>). The keys of a
  decoded JSON object are strings, \<open>PStr k\<close>.
\<close>

record request =
  origin :: "string option"
  body :: string
  query_arguments :: "(string \<times> string list) list"

datatype pyval =
    PNone
  | PBool bool
  | PInt int
  | PFloat real
  | PStr string
  | PBytes string
  | PList "pyval list"
  | PDict "(pyval \<times> pyval) list"
  | PRequest request

datatype error =
    ValueError
  | TypeError
  | DecodeError
  | ConnectionAbortedError
  | ConnectionError
  | OtherException

type_synonym pydict = "(pyval \<times> pyval) list"

datatype operation = readProperty | writeProperty | deleteProperty | invokeAction

datatype action =
    SetStatus nat
  | SetHeader string string
  | Write pyval
  | WriteException error
  | WriteExceptionFrame error
  | Flush
  | Finish
  | UpdateRouter
  | ScheduleUpdateRouter
  | Attempt operation
  | Execute string pydict pydict pyval
  | ConsumerExit

text \<open>Python truthiness, as used by \<^verbatim>\<open>if reply:\<close> and \<^verbatim>\<open>if data:\<close>.\<close>

fun truthy :: "pyval \<Rightarrow> bool" where
  "truthy PNone = False"
| "truthy (PBool b) = b"
| "truthy (PInt n) = (n \<noteq> 0)"
| "truthy (PFloat x) = (x \<noteq> 0)"
| "truthy (PStr s) = (s \<noteq> [])"
| "truthy (PBytes s) = (s \<noteq> [])"
| "truthy (PList xs) = (xs \<noteq> [])"
| "truthy (PDict kv) = (kv \<noteq> [])"
| "truthy (PRequest r) = True"

text \<open>
  \<^verbatim>\<open>serializer.loads\<close> is the configured serializer's decoder: a parameter of the model,
  which returns the decoded value or the exception it raises.
\<close>

type_synonym loads = "string \<Rightarrow> error + pyval"

section \<open>Serializers: the type replacement registry\<close>

text \<open>
  \<^verbatim>\<open>register_type_replacement(cls, object_type, replacement_function)\<close> receives any Python
  object as \<^verbatim>\<open>object_type\<close>: the builtin \<^verbatim>\<open>type\<close> itself, some other class, or an object
  that is not a class. \<^verbatim>\<open>inspect.isclass\<close> holds of the first two.
\<close>

datatype pyobject = TypeType | PyClass string | NotAClass string

fun isclass :: "pyobject \<Rightarrow> bool" where
  "isclass TypeType = True"
| "isclass (PyClass c) = True"
| "isclass (NotAClass x) = False"

type_synonym 'f registry = "pyobject \<rightharpoonup> 'f"

text \<open>
  \<^verbatim>\<open>JSONSerializer.register_type_replacement\<close>: the class attribute \<^verbatim>\<open>_type_replacements\<close> is the
  state; the result is the exception raised, if any, and the registry afterwards.
\<close>

definition register_type_replacement ::
  "'f registry \<Rightarrow> pyobject \<Rightarrow> 'f \<Rightarrow> error option \<times> 'f registry" where
  "register_type_replacement type_replacements object_type replacement_function =
     (if object_type = TypeType \<or> \<not> isclass object_type
      then (Some ValueError, type_replacements)
      else (None, type_replacements(object_type \<mapsto> replacement_function)))"

text \<open>
  \<^verbatim>\<open>SerpentSerializer.register_type_replacement\<close> wraps the replacement function in
  \<^verbatim>\<open>custom_serializer\<close> and hands the wrapper to \<^verbatim>\<open>serpent.register_class\<close>, after the same
  guard. The registry is serpent's class registry.
\<close>

datatype 'f serpent_serializer = custom_serializer 'f

definition serpent_register_type_replacement ::
  "'f serpent_serializer registry \<Rightarrow> pyobject \<Rightarrow> 'f \<Rightarrow> error option \<times> 'f serpent_serializer registry" where
  "serpent_register_type_replacement class_registry object_type replacement_function =
     (if object_type = TypeType \<or> \<not> isclass object_type
      then (Some ValueError, class_registry)
      else (None, class_registry(object_type \<mapsto> custom_serializer replacement_function)))"

section \<open>Serializers: the fallback for unknown types\<close>

text \<open>
  \<^verbatim>\<open>JSONSerializer.default\<close> is the encoder's hook for objects it cannot encode by itself.
  An object is modelled by what the hook asks of it: whether it has a \<^verbatim>\<open>json\<close> attribute
  and what calling it gives, which of the \<^verbatim>\<open>isinstance\<close> tests it passes together with the
  value the matching branch reads from it (\<^verbatim>\<open>obj.name\<close>, \<^verbatim>\<open>list(obj)\<close>, \<^verbatim>\<open>obj._inner\<close>,
  \<^verbatim>\<open>str(obj)\<close>, \<^verbatim>\<open>obj.isoformat()\<close>, the formatted exception, the array's typecode and
  conversions), and its type, under which a replacement may be registered. A member of
  an Enum has a name and a value. The elements of a set, deque or tuple are taken to be
  JSON values already.
\<close>

datatype pykind =
    EnumMember string pyval
  | Collection "pyval list"
  | ConstrainedContainer pyval
  | UUID string
  | DateTime string
  | Decimal string
  | ExceptionObj pyval
  | ArrayObj char pyval pyval pyval
  | OtherObj

record pyobj =
  json_attr :: "(error + pyval) option"
  kind :: pykind
  type_of :: pyobject

definition default_json :: "(pyobj \<Rightarrow> error + pyval) registry \<Rightarrow> pyobj \<Rightarrow> error + pyval" where
  "default_json type_replacements obj =
     (case json_attr obj of
        Some called \<Rightarrow> called
      | None \<Rightarrow>
         (case kind obj of
            EnumMember name val \<Rightarrow> Inr (PStr name)
          | Collection elems \<Rightarrow> Inr (PList elems)
          | ConstrainedContainer inner \<Rightarrow> Inr inner
          | UUID s \<Rightarrow> Inr (PStr s)
          | DateTime isoformat \<Rightarrow> Inr (PStr isoformat)
          | Decimal s \<Rightarrow> Inr (PStr s)
          | ExceptionObj formatted \<Rightarrow> Inr formatted
          | ArrayObj typecode tostring tounicode tolist \<Rightarrow>
              if typecode = CHR ''c'' then Inr tostring
              else if typecode = CHR ''u'' then Inr tounicode
              else Inr tolist
          | OtherObj \<Rightarrow>
              (case type_replacements (type_of obj) of
                 Some replacer \<Rightarrow> replacer obj
               | None \<Rightarrow> Inl TypeError)))"

text \<open>
  \<^verbatim>\<open>JSONSerializer.dumps\<close> is \<^verbatim>\<open>json.encode(data, enc_hook=self.default)\<close> and
  \<^verbatim>\<open>JSONSerializer.loads\<close> is \<^verbatim>\<open>json.decode\<close>, both of the msgspec library. The library is
  outside the repository, so what it does by itself is a parameter: \<open>native data\<close> is
  the JSON value of an object the encoder supports without the hook, \<open>None\<close> for an
  object it hands to the hook; \<open>wire\<close> is the text of a JSON value; the decoder is the
  \<open>loads\<close> parameter used throughout.
\<close>

definition dumps ::
  "(pyobj \<Rightarrow> pyval option) \<Rightarrow> (pyval \<Rightarrow> string) \<Rightarrow>
   (pyobj \<Rightarrow> error + pyval) registry \<Rightarrow> pyobj \<Rightarrow> error + string" where
  "dumps native wire type_replacements data =
     (case native data of
        Some j \<Rightarrow> Inr (wire j)
      | None \<Rightarrow>
          (case default_json type_replacements data of
             Inl e \<Rightarrow> Inl e
           | Inr j \<Rightarrow> Inr (wire j)))"

definition loads_dumps ::
  "(pyobj \<Rightarrow> pyval option) \<Rightarrow> (pyval \<Rightarrow> string) \<Rightarrow> loads \<Rightarrow>
   (pyobj \<Rightarrow> error + pyval) registry \<Rightarrow> pyobj \<Rightarrow> error + pyval" where
  "loads_dumps native wire lds type_replacements data =
     (case dumps native wire type_replacements data of
        Inl e \<Rightarrow> Inl e
      | Inr bytes \<Rightarrow> lds bytes)"

section \<open>HTTP gateway: access control and property verbs\<close>

record resource =
  readOnly :: bool
  writeOnly :: bool
  request_as_argument :: bool

text \<open>
  \<^verbatim>\<open>BaseHandler.has_access_control\<close>: a property with an effect, the
  \<^verbatim>\<open>Access-Control-Allow-Origin\<close> header; the result is the boolean and the calls made.
\<close>

definition has_access_control :: "string list \<Rightarrow> request \<Rightarrow> bool \<times> action list" where
  "has_access_control allowed_clients req =
     (if length allowed_clients = 0
      then (True, [SetHeader ''Access-Control-Allow-Origin'' ''*''])
      else (case origin req of
              None \<Rightarrow> (False, [])
            | Some org \<Rightarrow>
                if org \<in> set allowed_clients \<or> org @ ''/'' \<in> set allowed_clients
                then (True, [SetHeader ''Access-Control-Allow-Origin'' org])
                else (False, [])))"

text \<open>
  \<^verbatim>\<open>PropertyHandler.is_method_allowed\<close>. Python reads
  \<^verbatim>\<open>method == 'POST' or method == 'PUT' and self.resource.readOnly\<close> as
  \<^verbatim>\<open>method == 'POST' or (method == 'PUT' and self.resource.readOnly)\<close>.
  The 401 branch does not call \<^verbatim>\<open>finish\<close>; the 405 branch does.
\<close>

definition is_method_allowed ::
  "string list \<Rightarrow> resource \<Rightarrow> request \<Rightarrow> string \<Rightarrow> bool \<times> action list" where
  "is_method_allowed allowed_clients res req method =
     (case has_access_control allowed_clients req of (ok, acts) \<Rightarrow>
        if \<not> ok then (False, acts @ [SetStatus 401])
        else if (method = ''GET'' \<and> writeOnly res)
                \<or> (method = ''POST'' \<or> (method = ''PUT'' \<and> readOnly res))
        then (False, acts @ [SetStatus 405, Finish])
        else (True, acts))"

text \<open>
  The verb methods of \<^verbatim>\<open>PropertyHandler\<close>: each returns at once when the method is not
  allowed, and otherwise awaits \<^verbatim>\<open>handle_through_thing\<close> with one operation. The result is
  the calls made so far and the operation handed to \<^verbatim>\<open>handle_through_thing\<close>, if any.
\<close>

definition property_verb ::
  "string \<Rightarrow> operation \<Rightarrow> string list \<Rightarrow> resource \<Rightarrow> request \<Rightarrow> action list \<times> operation option" where
  "property_verb method opn allowed_clients res req =
     (case is_method_allowed allowed_clients res req method of (ok, acts) \<Rightarrow>
        if \<not> ok then (acts, None) else (acts, Some opn))"

definition property_get :: "string list \<Rightarrow> resource \<Rightarrow> request \<Rightarrow> action list \<times> operation option" where
  "property_get = property_verb ''GET'' readProperty"

definition property_post :: "string list \<Rightarrow> resource \<Rightarrow> request \<Rightarrow> action list \<times> operation option" where
  "property_post = property_verb ''POST'' writeProperty"

definition property_put :: "string list \<Rightarrow> resource \<Rightarrow> request \<Rightarrow> action list \<times> operation option" where
  "property_put = property_verb ''PUT'' writeProperty"

definition property_delete :: "string list \<Rightarrow> resource \<Rightarrow> request \<Rightarrow> action list \<times> operation option" where
  "property_delete = property_verb ''DELETE'' deleteProperty"

section \<open>Argument assembly\<close>

text \<open>\<^verbatim>\<open>d.pop(key, default)\<close>: the value taken out, and the dict without the key.\<close>

definition pop :: "pydict \<Rightarrow> pyval \<Rightarrow> pyval \<Rightarrow> pyval \<times> pydict" where
  "pop d key dflt =
     ((case map_of d key of None \<Rightarrow> dflt | Some v \<Rightarrow> v), AList.delete key d)"

text \<open>
  The list comprehension \<^verbatim>\<open>[loads(val) for val in value]\<close>: the first value that does not
  decode raises.
\<close>

fun loads_each :: "loads \<Rightarrow> string list \<Rightarrow> error + pyval list" where
  "loads_each lds [] = Inr []"
| "loads_each lds (val # rest) =
     (case lds val of
        Inl e \<Rightarrow> Inl e
      | Inr v \<Rightarrow> (case loads_each lds rest of Inl e \<Rightarrow> Inl e | Inr vs \<Rightarrow> Inr (v # vs)))"

text \<open>
  The right-hand side of the assignment in the loop over \<^verbatim>\<open>query_arguments.items()\<close>:
  one value is decoded as it is, any other number of values becomes a list.
\<close>

definition load_query_value :: "loads \<Rightarrow> string list \<Rightarrow> error + pyval" where
  "load_query_value lds val =
     (if length val = 1 then lds (hd val)
      else (case loads_each lds val of Inl e \<Rightarrow> Inl e | Inr vs \<Rightarrow> Inr (PList vs)))"

text \<open>
  The loop \<^verbatim>\<open>for key, value in self.request.query_arguments.items(): arguments[key] = ...\<close>,
  shared by both handlers.
\<close>

fun merge_query_arguments ::
  "loads \<Rightarrow> pydict \<Rightarrow> (string \<times> string list) list \<Rightarrow> error + pydict" where
  "merge_query_arguments lds arguments [] = Inr arguments"
| "merge_query_arguments lds arguments ((key, val) # rest) =
     (case load_query_value lds val of
        Inl e \<Rightarrow> Inl e
      | Inr v \<Rightarrow> merge_query_arguments lds (AList.update (PStr key) v arguments) rest)"

text \<open>
  \<^verbatim>\<open>timeout < 0\<close> for a value that is not \<^verbatim>\<open>None\<close>: defined on numbers (a bool is an int),
  a \<^verbatim>\<open>TypeError\<close> on anything else.
\<close>

fun lt_zero :: "pyval \<Rightarrow> error + bool" where
  "lt_zero (PInt n) = Inr (n < 0)"
| "lt_zero (PFloat x) = Inr (x < 0)"
| "lt_zero (PBool b) = Inr False"
| "lt_zero v = Inl TypeError"

text \<open>
  \<^verbatim>\<open>BaseHandler.get_execution_parameters\<close> of the HTTP gateway: the arguments, the context
  and the timeout, or the exception raised on the way.
\<close>

definition get_execution_parameters ::
  "loads \<Rightarrow> resource \<Rightarrow> request \<Rightarrow> error + (pyval \<times> pydict \<times> pyval)" where
  "get_execution_parameters lds res req =
     (case (if length (body req) > 0 then lds (body req) else Inr (PDict [])) of
        Inl e \<Rightarrow> Inl e
      | Inr loaded \<Rightarrow>
         (case loaded of
            PDict arguments0 \<Rightarrow>
              (case (if length (query_arguments req) \<ge> 1
                     then merge_query_arguments lds arguments0 (query_arguments req)
                     else Inr arguments0) of
                 Inl e \<Rightarrow> Inl e
               | Inr arguments1 \<Rightarrow>
                  (case pop arguments1 (PStr ''fetch_execution_logs'') (PBool False) of
                     (logs, arguments2) \<Rightarrow>
                  (case pop arguments2 (PStr ''timeout'') PNone of
                     (timeout, arguments3) \<Rightarrow>
                  (case (if timeout \<noteq> PNone then lt_zero timeout else Inr False) of
                     Inl e \<Rightarrow> Inl e
                   | Inr negative \<Rightarrow>
                       Inr (PDict (if request_as_argument res
                                   then AList.update (PStr ''request'') (PRequest req) arguments3
                                   else arguments3),
                            [(PStr ''fetch_execution_logs'', logs)],
                            if negative then PNone else timeout)))))
          | _ \<Rightarrow> Inr (loaded, [], PInt 5)))"

subsection \<open>Legacy handler\<close>

text \<open>
  \<^verbatim>\<open>dict.update(other)\<close> as the legacy \<^verbatim>\<open>prepare_arguments\<close> calls it on the decoded body.
  A dict is merged key by key. Any other value is iterated as a sequence of key/value
  pairs, each of which must itself be a sequence of length two with a hashable first
  element; a value that cannot be iterated is a \<^verbatim>\<open>TypeError\<close>.

  The keys of such pairs need not be strings. A dict finds a key by Python's equality,
  under which \<^verbatim>\<open>True\<close>, \<^verbatim>\<open>1\<close> and \<^verbatim>\<open>1.0\<close> are one key; assigning under an equal key
  replaces the value and keeps the key object that was there.
\<close>

fun hashable_key :: "pyval \<Rightarrow> error + pyval" where
  "hashable_key (PList xs) = Inl TypeError"
| "hashable_key (PDict kv) = Inl TypeError"
| "hashable_key k = Inr k"

fun key_class :: "pyval \<Rightarrow> pyval" where
  "key_class (PBool b) = PInt (if b then 1 else 0)"
| "key_class (PFloat x) = (if x = of_int \<lfloor>x\<rfloor> then PInt \<lfloor>x\<rfloor> else PFloat x)"
| "key_class k = k"

fun setitem :: "pydict \<Rightarrow> pyval \<Rightarrow> pyval \<Rightarrow> pydict" where
  "setitem [] k v = [(k, v)]"
| "setitem ((k', v') # d) k v =
     (if key_class k' = key_class k then (k', v) # d else (k', v') # setitem d k v)"

fun as_pair :: "pyval \<Rightarrow> error + (pyval \<times> pyval)" where
  "as_pair (PList [k, v]) = Inr (k, v)"
| "as_pair (PList xs) = Inl ValueError"
| "as_pair (PStr [c, d]) = Inr (PStr [c], PStr [d])"
| "as_pair (PStr s) = Inl ValueError"
| "as_pair (PBytes [c, d]) = Inr (PInt (int (of_char c)), PInt (int (of_char d)))"
| "as_pair (PBytes s) = Inl ValueError"
| "as_pair (PDict [(k, v), (k', v')]) = Inr (k, k')"
| "as_pair (PDict kv) = Inl ValueError"
| "as_pair v = Inl TypeError"

fun update_pairs :: "pydict \<Rightarrow> pyval list \<Rightarrow> error + pydict" where
  "update_pairs d [] = Inr d"
| "update_pairs d (x # xs) =
     (case as_pair x of
        Inl e \<Rightarrow> Inl e
      | Inr (k, v) \<Rightarrow>
          (case hashable_key k of
             Inl e \<Rightarrow> Inl e
           | Inr k' \<Rightarrow> update_pairs (setitem d k' v) xs))"

fun dict_update :: "pydict \<Rightarrow> pyval \<Rightarrow> error + pydict" where
  "dict_update d (PDict kv) = Inr (fold (\<lambda>(k, v). AList.update k v) kv d)"
| "dict_update d (PList xs) = update_pairs d xs"
| "dict_update d (PStr s) = update_pairs d (map (\<lambda>c. PStr [c]) s)"
| "dict_update d (PBytes s) = update_pairs d (map (\<lambda>c. PInt (int (of_char c))) s)"
| "dict_update d v = Inl TypeError"

text \<open>
  The legacy \<^verbatim>\<open>BaseHandler.prepare_arguments\<close>: the query parameters first, then the
  decoded body on top of them.
\<close>

definition prepare_arguments :: "loads \<Rightarrow> request \<Rightarrow> error + pydict" where
  "prepare_arguments lds req =
     (case (if length (query_arguments req) \<ge> 1
            then merge_query_arguments lds [] (query_arguments req)
            else Inr []) of
        Inl e \<Rightarrow> Inl e
      | Inr arguments \<Rightarrow>
          if length (body req) > 0
          then (case lds (body req) of
                  Inl e \<Rightarrow> Inl e
                | Inr loaded \<Rightarrow> dict_update arguments loaded)
          else Inr arguments)"

section \<open>Dispatch\<close>

subsection \<open>HTTP gateway: \<^verbatim>\<open>RPCHandler.handle_through_thing\<close>\<close>

text \<open>
  \<^verbatim>\<open>RPCHandler.set_headers\<close>.
\<close>

definition set_headers :: "action list" where
  "set_headers = [SetHeader ''Content-Type'' ''application/json'',
                  SetHeader ''Access-Control-Allow-Credentials'' ''true'']"

text \<open>
  The statements after the \<^verbatim>\<open>try\<close> statement: \<^verbatim>\<open>set_headers\<close>, the guarded \<^verbatim>\<open>write\<close>,
  \<^verbatim>\<open>finish\<close>. The reply is \<^verbatim>\<open>None\<close> (nothing assigned), the value \<^verbatim>\<open>async_execute\<close> returned,
  or the serialized exception.
\<close>

definition write_reply :: "error + pyval \<Rightarrow> action list" where
  "write_reply reply =
     (case reply of
        Inl e \<Rightarrow> [WriteException e]
      | Inr r \<Rightarrow> if truthy r then [Write r] else [])"

text \<open>
  One run of the \<^verbatim>\<open>try\<close> block (execution parameters, payload, schema validation,
  \<^verbatim>\<open>async_execute\<close>) is one attempt. What leaves the block, the reply or an exception, is
  decided outside the handler: \<open>outcome n\<close> is what the \<open>n\<close>-th attempt of this request
  meets. The \<^verbatim>\<open>except ConnectionError\<close> clause awaits the router update and then the
  handler itself again, and returns; nothing counts the attempts, so the function need
  not return, and not returning is \<open>None\<close> (the model has no recursion limit, where
  CPython ends a long chain of nested calls with \<^verbatim>\<open>RecursionError\<close>).
  \<^verbatim>\<open>ConnectionAbortedError\<close> is a subclass of \<^verbatim>\<open>ConnectionError\<close> and its clause comes first.

  As the block is written, its first statement unpacks the three results of
  \<^verbatim>\<open>get_execution_parameters\<close> into two names, which raises \<^verbatim>\<open>ValueError\<close>, and its second
  calls \<^verbatim>\<open>get_payload\<close>, which the handlers do not define: the outcome the source itself
  produces on a request is \<open>Inl ValueError\<close>, or the exception that
  \<^verbatim>\<open>get_execution_parameters\<close> raises. What is proved of this function is proved for
  every outcome.
\<close>

partial_function (option) handle_through_thing ::
  "(nat \<Rightarrow> error + pyval) \<Rightarrow> operation \<Rightarrow> nat \<Rightarrow> action list \<Rightarrow> action list option" where
  "handle_through_thing outcome opn n acts =
     (case outcome n of
        Inr reply \<Rightarrow>
          Some (acts @ [Attempt opn, SetStatus 200] @ set_headers @ write_reply (Inr reply) @ [Finish])
      | Inl e \<Rightarrow>
          if e = ConnectionAbortedError
          then Some (acts @ [Attempt opn, SetStatus 503, ScheduleUpdateRouter]
                       @ set_headers @ write_reply (Inr PNone) @ [Finish])
          else if e = ConnectionError
          then handle_through_thing outcome opn (Suc n) (acts @ [Attempt opn, UpdateRouter])
          else Some (acts @ [Attempt opn, SetStatus 500] @ set_headers @ write_reply (Inl e) @ [Finish]))"

text \<open>
  The first statement of the \<^verbatim>\<open>try\<close> block as it is written,
  \<^verbatim>\<open>a, b = self.get_execution_parameters()\<close>: the call raises, or it returns three values
  and the assignment to two names raises \<^verbatim>\<open>ValueError\<close>. Nothing after it is reached.
\<close>

definition try_block :: "loads \<Rightarrow> resource \<Rightarrow> request \<Rightarrow> error + pyval" where
  "try_block lds res req =
     (case get_execution_parameters lds res req of
        Inl e \<Rightarrow> Inl e
      | Inr returned \<Rightarrow> Inl ValueError)"

subsection \<open>Legacy handler: \<^verbatim>\<open>RPCHandler.handle_through_remote_object\<close>\<close>

record HTTPResource =
  instructions :: "(string \<times> string) list"
  http_request_as_argument :: bool

text \<open>
  The legacy \<^verbatim>\<open>RPCHandler.has_access_control\<close>: its first statement is \<^verbatim>\<open>return True\<close>.
\<close>

definition legacy_has_access_control :: "string list \<Rightarrow> request \<Rightarrow> bool \<times> action list" where
  "legacy_has_access_control CORS req = (True, [])"

definition set_custom_default_headers :: "action list" where
  "set_custom_default_headers =
     [SetStatus 200, SetHeader ''Content-Type'' ''application/json'',
      SetHeader ''Access-Control-Allow-Credentials'' ''true'']"

text \<open>
  The body of the \<^verbatim>\<open>try\<close> statement with its \<^verbatim>\<open>except Exception\<close> clause: the calls made and
  the reply, which is the broker's reply or the serialized exception. The broker call
  \<^verbatim>\<open>async_execute\<close> is a parameter: it returns the reply or raises.
\<close>

definition legacy_try ::
  "loads \<Rightarrow> (string \<Rightarrow> pydict \<Rightarrow> pydict \<Rightarrow> pyval \<Rightarrow> error + pyval) \<Rightarrow>
   HTTPResource \<Rightarrow> request \<Rightarrow> string \<Rightarrow> action list \<times> (error + pyval)" where
  "legacy_try lds async_execute res req http_method =
     (case prepare_arguments lds req of
        Inl e \<Rightarrow> ([], Inl e)
      | Inr arguments \<Rightarrow>
         (case pop arguments (PStr ''fetch_execution_logs'') (PBool False) of
            (logs, arguments2) \<Rightarrow>
         (case pop arguments2 (PStr ''timeout'') PNone of
            (timeout, arguments3) \<Rightarrow>
         (case map_of (instructions res) http_method of
            None \<Rightarrow> ([], Inl OtherException)
          | Some instruction \<Rightarrow>
             (let arguments4 = (if http_request_as_argument res
                                then AList.update (PStr ''request'') (PRequest req) arguments3
                                else arguments3);
                  context = [(PStr ''fetch_execution_logs'', logs)];
                  call = Execute instruction arguments4 context timeout
              in case async_execute instruction arguments4 context timeout of
                   Inl e \<Rightarrow> ([call], Inl e)
                 | Inr reply \<Rightarrow> (call # set_custom_default_headers, Inr reply))))))"

definition handle_through_remote_object ::
  "loads \<Rightarrow> (string \<Rightarrow> pydict \<Rightarrow> pydict \<Rightarrow> pyval \<Rightarrow> error + pyval) \<Rightarrow>
   string list \<Rightarrow> HTTPResource \<Rightarrow> request \<Rightarrow> string \<Rightarrow> action list" where
  "handle_through_remote_object lds async_execute CORS res req http_method =
     (if http_method \<notin> fst ` set (instructions res) then [SetStatus 404]
      else if fst (legacy_has_access_control CORS req)
      then (case legacy_try lds async_execute res req http_method of
              (acts, reply) \<Rightarrow> acts @ write_reply reply)
      else [SetStatus 403])"

section \<open>Event tunnel\<close>

text \<open>
  Each turn of the \<^verbatim>\<open>while True\<close> loop polls the consumer and, on most paths, flushes.
  What the poll gives (bytes, \<^verbatim>\<open>None\<close> after the poll interval, or an exception) and what
  the flush meets are decided outside the handler; a script lists them turn by turn.
  The loop has no exit but the closed stream: when the script ends with the stream
  open, the loop is still running, which the result says (\<open>False\<close>).
\<close>

datatype flush_result = FlushOk | StreamClosedError | FlushError error

type_synonym turn = "(error + string option) \<times> flush_result"

definition data_header :: "string \<Rightarrow> string" where
  "data_header d = ''data: '' @ d @ [CHR 0x0A, CHR 0x0A]"

fun data_truthy :: "string option \<Rightarrow> bool" where
  "data_truthy None = False"
| "data_truthy (Some d) = (d \<noteq> [])"

text \<open>\<^verbatim>\<open>self.write(self.data_header % data)\<close> under the guard \<^verbatim>\<open>if data:\<close>.\<close>

fun write_frame :: "string option \<Rightarrow> action list" where
  "write_frame None = []"
| "write_frame (Some d) = (if d \<noteq> [] then [Write (PBytes (data_header d))] else [])"

definition continue :: "action list \<Rightarrow> action list \<times> bool \<Rightarrow> action list \<times> bool" where
  "continue acts r = (acts @ fst r, snd r)"

text \<open>
  The loop of \<^verbatim>\<open>EventHandler.handle_datastream\<close> of the HTTP gateway. Both branches of
  \<^verbatim>\<open>if data:\<close> flush.
\<close>

fun event_loop :: "turn list \<Rightarrow> action list \<times> bool" where
  "event_loop [] = ([], False)"
| "event_loop ((Inl e, fl) # rest) = continue [WriteExceptionFrame e] (event_loop rest)"
| "event_loop ((Inr data, fl) # rest) =
     (case fl of
        FlushOk \<Rightarrow> continue (write_frame data @ [Flush]) (event_loop rest)
      | StreamClosedError \<Rightarrow> (write_frame data @ [Flush], True)
      | FlushError e \<Rightarrow>
          continue (write_frame data @ [Flush, WriteExceptionFrame e]) (event_loop rest))"

text \<open>
  \<^verbatim>\<open>EventHandler.handle_datastream\<close> of the HTTP gateway: the subscription, which may
  raise, the loop, and the release of the consumer when the in-process context is an
  asyncio context.
\<close>

definition handle_datastream :: "error option \<Rightarrow> bool \<Rightarrow> turn list \<Rightarrow> action list \<times> bool" where
  "handle_datastream subscribe_error asyncio_context script =
     (case subscribe_error of
        Some e \<Rightarrow> ([SetStatus 500, WriteException e], True)
      | None \<Rightarrow>
          (case event_loop script of
             (acts, exited) \<Rightarrow>
               (SetStatus 200 # acts @ (if exited \<and> asyncio_context then [ConsumerExit] else []),
                exited)))"

text \<open>
  The loop of the legacy \<^verbatim>\<open>EventHandler.handle_datastream\<close>, entered once the consumer
  exists: a turn without data does nothing at all, and only a turn with data flushes.
\<close>

fun legacy_event_loop :: "turn list \<Rightarrow> action list \<times> bool" where
  "legacy_event_loop [] = ([], False)"
| "legacy_event_loop ((Inl e, fl) # rest) =
     continue [WriteExceptionFrame e] (legacy_event_loop rest)"
| "legacy_event_loop ((Inr data, fl) # rest) =
     (if data_truthy data
      then (case fl of
              FlushOk \<Rightarrow> continue (write_frame data @ [Flush]) (legacy_event_loop rest)
            | StreamClosedError \<Rightarrow> (write_frame data @ [Flush], True)
            | FlushError e \<Rightarrow>
                continue (write_frame data @ [Flush, WriteExceptionFrame e])
                  (legacy_event_loop rest))
      else legacy_event_loop rest)"

definition legacy_handle_datastream :: "turn list \<Rightarrow> action list \<times> bool" where
  "legacy_handle_datastream script =
     (case legacy_event_loop script of
        (acts, exited) \<Rightarrow> (acts @ (if exited then [ConsumerExit] else []), exited))"

section \<open>The argument map in the words of the specification\<close>

text \<open>
  The specification describes the forwarded arguments as a map: the body's map, the
  decoded query parameters merged over it, the two reserved keys taken out. \<open>dec\<close> is
  the decoding of one query value; a parameter with one value decodes to that value,
  any other to the list of its decoded values.
\<close>

definition reserved_keys :: "pyval set" where
  "reserved_keys = {PStr ''timeout'', PStr ''fetch_execution_logs''}"

definition spec_query_value :: "(string \<Rightarrow> pyval) \<Rightarrow> string list \<Rightarrow> pyval" where
  "spec_query_value dec vals = (if length vals = 1 then dec (hd vals) else PList (map dec vals))"

definition spec_query_map ::
  "(string \<Rightarrow> pyval) \<Rightarrow> (string \<times> string list) list \<Rightarrow> pyval \<rightharpoonup> pyval" where
  "spec_query_map dec query =
     map_of (map (\<lambda>(key, vals). (PStr key, spec_query_value dec vals)) query)"

text \<open>Query over body, as the specification has it.\<close>

definition spec_merged :: "pydict \<Rightarrow> (pyval \<rightharpoonup> pyval) \<Rightarrow> pyval \<rightharpoonup> pyval" where
  "spec_merged b qm = map_of b ++ qm"

text \<open>Body over query, as the legacy handler has it.\<close>

definition legacy_merged :: "pydict \<Rightarrow> (pyval \<rightharpoonup> pyval) \<Rightarrow> pyval \<rightharpoonup> pyval" where
  "legacy_merged b qm = qm ++ map_of b"

text \<open>
  The map without the reserved keys, and with the request object under \<open>request\<close>
  when there is one to add.
\<close>

definition forwarded :: "request option \<Rightarrow> (pyval \<rightharpoonup> pyval) \<Rightarrow> pyval \<rightharpoonup> pyval" where
  "forwarded with_request m =
     (case with_request of
        Some r \<Rightarrow> (m |` (- reserved_keys))(PStr ''request'' \<mapsto> PRequest r)
      | None \<Rightarrow> m |` (- reserved_keys))"

text \<open>
  The timeout after normalisation: a negative number is no timeout. Only \<^verbatim>\<open>None\<close> and
  numbers (a bool is one) are timeouts; the comparison raises on any other value.
\<close>

fun spec_timeout :: "pyval option \<Rightarrow> pyval" where
  "spec_timeout (Some (PInt n)) = (if n < 0 then PNone else PInt n)"
| "spec_timeout (Some (PFloat x)) = (if x < 0 then PNone else PFloat x)"
| "spec_timeout (Some (PBool b)) = PBool b"
| "spec_timeout t = PNone"

fun is_timeout :: "pyval option \<Rightarrow> bool" where
  "is_timeout None = True"
| "is_timeout (Some PNone) = True"
| "is_timeout (Some (PInt n)) = True"
| "is_timeout (Some (PFloat x)) = True"
| "is_timeout (Some (PBool b)) = True"
| "is_timeout (Some v) = False"

fun negative_number :: "pyval \<Rightarrow> bool" where
  "negative_number (PInt n) = (n < 0)"
| "negative_number (PFloat x) = (x < 0)"
| "negative_number v = False"

text \<open>
  A decoder for the examples: it knows the few texts they use and refuses every other
  one. It stands for the configured serializer where an example needs one.
\<close>

definition sample_loads :: loads where
  \<open>sample_loads s =
     (case map_of
        [(''1'', PInt 1), (''2'', PInt 2), (''3'', PInt 3), (''4'', PInt 4),
         (''-1'', PInt (- 1)), (''-0.5'', PFloat (- (1 / 2))), (''true'', PBool True),
         (''null'', PNone), (''"RED"'', PStr ''RED''), (''"soon"'', PStr ''soon''),
         (''[1]'', PList [PInt 1]),
         (''{"a":1}'', PDict [(PStr ''a'', PInt 1)]),
         (''{"a":1,"timeout":-1}'', PDict [(PStr ''a'', PInt 1), (PStr ''timeout'', PInt (- 1))])] s of
        None \<Rightarrow> Inl DecodeError
      | Some v \<Rightarrow> Inr v)\<close>

text \<open>
  The encoder's text for the values the examples use: the number one, a string in
  double quotes, and \<open>null\<close> for anything else.
\<close>

definition sample_wire :: "pyval \<Rightarrow> string" where
  \<open>sample_wire j =
     (if j = PInt 1 then ''1''
      else case j of PStr s \<Rightarrow> ''"'' @ s @ ''"'' | _ \<Rightarrow> ''null'')\<close>

definition sample_dec :: "string \<Rightarrow> pyval" where
  "sample_dec s = (case sample_loads s of Inl e \<Rightarrow> PNone | Inr v \<Rightarrow> v)"

section \<open>Theorems\<close>

subsection \<open>Type replacement registry\<close>

text \<open>
  C10. \<^verbatim>\<open>register_type_replacement\<close> raises \<^verbatim>\<open>ValueError\<close> for the type \<^verbatim>\<open>type\<close> itself and for
  any object that is not a class, and then leaves the registry as it was. For any other
  class it returns normally, the registry maps exactly that type to the given replacement
  function (for serpent: to the \<^verbatim>\<open>custom_serializer\<close> wrapping exactly that function), and
  the entry of every other type is unchanged.
\<close>

theorem register_type_replacement_spec:
  "(object_type = TypeType \<or> \<not> isclass object_type \<longrightarrow>
      register_type_replacement regs object_type f = (Some ValueError, regs) \<and>
      serpent_register_type_replacement sregs object_type f = (Some ValueError, sregs))
   \<and> (object_type \<noteq> TypeType \<and> isclass object_type \<longrightarrow>
      fst (register_type_replacement regs object_type f) = None \<and>
      snd (register_type_replacement regs object_type f) object_type = Some f \<and>
      (\<forall>t. t \<noteq> object_type \<longrightarrow>
           snd (register_type_replacement regs object_type f) t = regs t) \<and>
      fst (serpent_register_type_replacement sregs object_type f) = None \<and>
      snd (serpent_register_type_replacement sregs object_type f) object_type
        = Some (custom_serializer f) \<and>
      (\<forall>t. t \<noteq> object_type \<longrightarrow>
           snd (serpent_register_type_replacement sregs object_type f) t = sregs t))"
  by (simp add: register_type_replacement_def serpent_register_type_replacement_def)

theorem register_type_replacement_spec_witness:
  "register_type_replacement (Map.empty(PyClass ''Decimal'' \<mapsto> (1::nat))) TypeType 7
     = (Some ValueError, Map.empty(PyClass ''Decimal'' \<mapsto> 1))
   \<and> register_type_replacement (Map.empty(PyClass ''Decimal'' \<mapsto> (1::nat))) (NotAClass ''42'') 7
     = (Some ValueError, Map.empty(PyClass ''Decimal'' \<mapsto> 1))
   \<and> fst (register_type_replacement (Map.empty(PyClass ''Decimal'' \<mapsto> (1::nat))) (PyClass ''Point'') 7) = None
   \<and> snd (register_type_replacement (Map.empty(PyClass ''Decimal'' \<mapsto> (1::nat))) (PyClass ''Point'') 7)
        (PyClass ''Point'') = Some 7
   \<and> snd (register_type_replacement (Map.empty(PyClass ''Decimal'' \<mapsto> (1::nat))) (PyClass ''Point'') 7)
        (PyClass ''Decimal'') = Some 1
   \<and> snd (serpent_register_type_replacement Map.empty (PyClass ''Point'') (7::nat))
        (PyClass ''Point'') = Some (custom_serializer 7)"
  using register_type_replacement_spec
          [of TypeType "Map.empty(PyClass ''Decimal'' \<mapsto> (1::nat))" 7 Map.empty]
        register_type_replacement_spec
          [of "NotAClass ''42''" "Map.empty(PyClass ''Decimal'' \<mapsto> (1::nat))" 7 Map.empty]
        register_type_replacement_spec
          [of "PyClass ''Point''" "Map.empty(PyClass ''Decimal'' \<mapsto> (1::nat))" 7 Map.empty]
  by simp

subsection \<open>Origin allow-list\<close>

text \<open>
  C4, as the code has it. With an empty allow-list every request is authorized and
  \<open>*\<close> is set as \<^verbatim>\<open>Access-Control-Allow-Origin\<close>. With a non-empty allow-list a request is
  authorized, and its origin echoed, exactly when it has an \<^verbatim>\<open>Origin\<close> header and the
  allow-list contains that origin or that origin followed by a slash: the slash is added
  to the request's origin, not to the allow-list entry. An unauthorized request to a
  property, whatever the verb, gets status 401 and nothing is handed to
  \<^verbatim>\<open>handle_through_thing\<close>.
\<close>

theorem has_access_control_spec:
  "(allowed_clients = [] \<longrightarrow>
      has_access_control allowed_clients req
        = (True, [SetHeader ''Access-Control-Allow-Origin'' ''*'']))
   \<and> (allowed_clients \<noteq> [] \<longrightarrow>
      (fst (has_access_control allowed_clients req) \<longleftrightarrow>
         (\<exists>org. origin req = Some org \<and>
            (org \<in> set allowed_clients \<or> org @ ''/'' \<in> set allowed_clients))) \<and>
      (\<forall>org. origin req = Some org \<and> fst (has_access_control allowed_clients req) \<longrightarrow>
         snd (has_access_control allowed_clients req)
           = [SetHeader ''Access-Control-Allow-Origin'' org]))
   \<and> (\<not> fst (has_access_control allowed_clients req) \<longrightarrow>
      property_verb method opn allowed_clients res req = ([SetStatus 401], None))"
  by (auto simp: has_access_control_def property_verb_def is_method_allowed_def
           split: option.splits)

theorem has_access_control_spec_witness:
  "has_access_control [] \<lparr>origin = None, body = [], query_arguments = []\<rparr>
     = (True, [SetHeader ''Access-Control-Allow-Origin'' ''*''])
   \<and> has_access_control [''https://a.example/'']
        \<lparr>origin = Some ''https://a.example'', body = [], query_arguments = []\<rparr>
     = (True, [SetHeader ''Access-Control-Allow-Origin'' ''https://a.example''])
   \<and> property_verb ''GET'' readProperty [''https://a.example'']
        \<lparr>readOnly = False, writeOnly = False, request_as_argument = False\<rparr>
        \<lparr>origin = Some ''https://b.example'', body = [], query_arguments = []\<rparr>
     = ([SetStatus 401], None)"
  using has_access_control_spec
          [of "[]" "\<lparr>origin = None, body = [], query_arguments = []\<rparr>"]
        has_access_control_spec
          [of "[''https://a.example/'']"
              "\<lparr>origin = Some ''https://a.example'', body = [], query_arguments = []\<rparr>"]
        has_access_control_spec
          [of "[''https://a.example'']"
              "\<lparr>origin = Some ''https://b.example'', body = [], query_arguments = []\<rparr>"
              "''GET''" readProperty
              "\<lparr>readOnly = False, writeOnly = False, request_as_argument = False\<rparr>"]
  by (simp add: has_access_control_def)

text \<open>
  With the allow-list \<open>[https://a.example]\<close>, a request whose \<^verbatim>\<open>Origin\<close> is
  \<open>https://a.example/\<close> is not authorized: neither that string nor
  \<open>https://a.example//\<close> is in the list. A GET of a property is answered with 401.
\<close>

theorem has_access_control_trailing_slash_counterexample:
  "has_access_control [''https://a.example'']
     \<lparr>origin = Some ''https://a.example/'', body = [], query_arguments = []\<rparr> = (False, [])
   \<and> property_get [''https://a.example'']
        \<lparr>readOnly = False, writeOnly = False, request_as_argument = False\<rparr>
        \<lparr>origin = Some ''https://a.example/'', body = [], query_arguments = []\<rparr>
     = ([SetStatus 401], None)"
  by (simp add: has_access_control_def property_get_def property_verb_def is_method_allowed_def)

subsection \<open>Property verbs\<close>

text \<open>
  The verbs of a property that behave as the table says, for an authorized request: GET
  is handed on as \<open>readProperty\<close> unless the property is write-only, PUT as
  \<open>writeProperty\<close> unless it is read-only, DELETE as \<open>deleteProperty\<close>; a refused verb
  sets 405, finishes and hands nothing on.
\<close>

lemma property_get_put_delete:
  assumes "has_access_control allowed_clients req = (True, acts)"
  shows "property_get allowed_clients res req
           = (if writeOnly res then (acts @ [SetStatus 405, Finish], None)
              else (acts, Some readProperty))"
    and "property_put allowed_clients res req
           = (if readOnly res then (acts @ [SetStatus 405, Finish], None)
              else (acts, Some writeProperty))"
    and "property_delete allowed_clients res req = (acts, Some deleteProperty)"
  using assms
  by (simp_all add: property_get_def property_put_def property_delete_def
        property_verb_def is_method_allowed_def)

text \<open>
  C2, at the input where the code departs from it: an authorized POST to a property that
  is neither read-only nor write-only. \<^verbatim>\<open>is_method_allowed('POST')\<close> sets 405 and
  finishes, because \<^verbatim>\<open>method == 'POST'\<close> alone makes the refusal condition true, and
  \<^verbatim>\<open>post\<close> returns without calling \<^verbatim>\<open>handle_through_thing\<close>.
\<close>

theorem property_post_writable_refused:
  "property_post []
     \<lparr>readOnly = False, writeOnly = False, request_as_argument = False\<rparr>
     \<lparr>origin = None, body = ''1'', query_arguments = []\<rparr>
   = ([SetHeader ''Access-Control-Allow-Origin'' ''*'', SetStatus 405, Finish], None)"
  by (simp add: property_post_def property_verb_def is_method_allowed_def
        has_access_control_def)

subsection \<open>Argument assembly\<close>

lemma loads_each_ok:
  "\<forall>val \<in> set vals. lds val = Inr (dec val) \<Longrightarrow> loads_each lds vals = Inr (map dec vals)"
  by (induction vals) auto

lemma load_query_value_ok:
  assumes "\<forall>val \<in> set vals. lds val = Inr (dec val)"
  shows "load_query_value lds vals = Inr (spec_query_value dec vals)"
proof (cases "length vals = 1")
  case True
  then obtain v where "vals = [v]" by (cases vals) auto
  with assms show ?thesis by (simp add: load_query_value_def spec_query_value_def)
next
  case False
  with loads_each_ok [OF assms] show ?thesis
    by (simp add: load_query_value_def spec_query_value_def)
qed

lemma merge_query_arguments_ok:
  assumes "\<forall>(key, vals) \<in> set query. \<forall>val \<in> set vals. lds val = Inr (dec val)"
  shows "\<exists>d'. merge_query_arguments lds d query = Inr d' \<and>
           map_of d' = map_of d ++ map_of (rev (map (\<lambda>(key, vals). (PStr key, spec_query_value dec vals)) query))"
  using assms
proof (induction query arbitrary: d)
  case Nil
  then show ?case by simp
next
  case (Cons kv query)
  obtain key vals where kv: "kv = (key, vals)" by (cases kv)
  from Cons.prems kv have "load_query_value lds vals = Inr (spec_query_value dec vals)"
    by (intro load_query_value_ok) auto
  moreover from Cons.prems have "\<forall>(key, vals) \<in> set query. \<forall>val \<in> set vals. lds val = Inr (dec val)"
    by auto
  from Cons.IH [OF this, of "AList.update (PStr key) (spec_query_value dec vals) d"]
  obtain d' where "merge_query_arguments lds (AList.update (PStr key) (spec_query_value dec vals) d) query = Inr d'"
    and "map_of d' = map_of (AList.update (PStr key) (spec_query_value dec vals) d) ++ map_of (rev (map (\<lambda>(key, vals). (PStr key, spec_query_value dec vals)) query))"
    by blast
  ultimately show ?case using kv
    by (auto simp: update_conv' map_add_upd_left fun_eq_iff map_add_def split: option.splits)
qed

lemma map_of_rev_distinct: "distinct (map fst xs) \<Longrightarrow> map_of (rev xs) = map_of xs"
proof (induction xs)
  case Nil
  then show ?case by simp
next
  case (Cons x xs)
  obtain a b where x: "x = (a, b)" by (cases x)
  with Cons.prems have "map_of xs a = None" by (simp add: map_of_eq_None_iff)
  then have "[a \<mapsto> b] ++ map_of xs = (map_of xs)(a \<mapsto> b)"
    by (auto simp: fun_eq_iff map_add_def split: option.splits)
  with Cons x show ?case by simp
qed

lemma fold_update_map_of:
  "map_of (fold (\<lambda>(k, v). AList.update k v) kv d) = map_of d ++ map_of (rev kv)"
  by (induction kv arbitrary: d) (auto simp: update_conv' fun_eq_iff map_add_def split: option.splits)


lemma query_map_rev:
  assumes "distinct (map fst query)"
  shows "map_of (rev (map (\<lambda>(key, vals). (PStr key, spec_query_value dec vals)) query))
           = spec_query_map dec query"
proof -
  have "map fst (map (\<lambda>(key, vals). (PStr key, spec_query_value dec vals)) query)
          = map PStr (map fst query)"
    by (induction query) auto
  with assms have "distinct (map fst (map (\<lambda>(key, vals). (PStr key, spec_query_value dec vals)) query))"
    by (simp add: distinct_map inj_on_def)
  then show ?thesis
    unfolding spec_query_map_def by (rule map_of_rev_distinct)
qed

lemma merged_query:
  assumes "distinct (map fst query)"
    and "\<forall>(key, vals) \<in> set query. \<forall>val \<in> set vals. lds val = Inr (dec val)"
  shows "\<exists>d'. (if length query \<ge> 1 then merge_query_arguments lds d query else Inr d) = Inr d'
              \<and> map_of d' = map_of d ++ spec_query_map dec query"
proof (cases query)
  case Nil
  then show ?thesis by (simp add: spec_query_map_def)
next
  case (Cons a list)
  then have "length query \<ge> 1" by simp
  with merge_query_arguments_ok [OF assms(2), of d] query_map_rev [OF assms(1), of dec]
  show ?thesis by auto
qed

lemma forwarded_delete:
  "map_of (AList.delete (PStr ''timeout'') (AList.delete (PStr ''fetch_execution_logs'') d))
     = map_of d |` (- reserved_keys)"
  by (auto simp: delete_conv' reserved_keys_def restrict_map_def fun_eq_iff)

lemma timeout_after_logs:
  "map_of (AList.delete (PStr ''fetch_execution_logs'') d) (PStr ''timeout'')
     = map_of d (PStr ''timeout'')"
  by (simp add: delete_conv')


lemma get_execution_parameters_result:
  assumes "(if body req = [] then Inr (PDict []) else lds (body req)) = Inr (PDict b)"
    and "distinct (map fst (query_arguments req))"
    and "\<forall>(key, vals) \<in> set (query_arguments req). \<forall>val \<in> set vals. lds val = Inr (dec val)"
  shows "(is_timeout (spec_merged b (spec_query_map dec (query_arguments req)) (PStr ''timeout'')) \<longrightarrow>
          (\<exists>arguments.
             get_execution_parameters lds res req
               = Inr (PDict arguments,
                      [(PStr ''fetch_execution_logs'',
                        case spec_merged b (spec_query_map dec (query_arguments req))
                               (PStr ''fetch_execution_logs'') of
                          None \<Rightarrow> PBool False | Some v \<Rightarrow> v)],
                      spec_timeout (spec_merged b (spec_query_map dec (query_arguments req))
                                      (PStr ''timeout'')))
             \<and> map_of arguments
                 = forwarded (if request_as_argument res then Some req else None)
                     (spec_merged b (spec_query_map dec (query_arguments req)))))
       \<and> (\<not> is_timeout (spec_merged b (spec_query_map dec (query_arguments req)) (PStr ''timeout'')) \<longrightarrow>
          get_execution_parameters lds res req = Inl TypeError)"
proof -
  let ?M = "spec_merged b (spec_query_map dec (query_arguments req))"
  from merged_query [OF assms(2,3), of b]
  obtain d' where d': "(if length (query_arguments req) \<ge> 1
                        then merge_query_arguments lds b (query_arguments req) else Inr b) = Inr d'"
    and m: "map_of d' = ?M"
    unfolding spec_merged_def by blast
  from assms(1) have ld: "(if length (body req) > 0 then lds (body req) else Inr (PDict [])) = Inr (PDict b)"
    by (auto split: if_splits)
  let ?args = "AList.delete (PStr ''timeout'') (AList.delete (PStr ''fetch_execution_logs'') d')"
  let ?final = "if request_as_argument res
                then AList.update (PStr ''request'') (PRequest req) ?args else ?args"
  have ok: "get_execution_parameters lds res req
          = Inr (PDict ?final,
                 [(PStr ''fetch_execution_logs'', case ?M (PStr ''fetch_execution_logs'') of
                        None \<Rightarrow> PBool False | Some v \<Rightarrow> v)],
                 spec_timeout (?M (PStr ''timeout'')))"
    if "is_timeout (?M (PStr ''timeout''))"
    using that unfolding get_execution_parameters_def ld sum.case pyval.case d'
    by (cases "?M (PStr ''timeout'')" rule: is_timeout.cases)
       (simp_all add: pop_def timeout_after_logs m)
  have bad: "get_execution_parameters lds res req = Inl TypeError"
    if "\<not> is_timeout (?M (PStr ''timeout''))"
    using that unfolding get_execution_parameters_def ld sum.case pyval.case d'
    by (cases "?M (PStr ''timeout'')" rule: is_timeout.cases)
       (simp_all add: pop_def timeout_after_logs m)
  have "map_of ?final = forwarded (if request_as_argument res then Some req else None) ?M"
    by (simp add: forwarded_def forwarded_delete update_conv' m)
  with ok bad show ?thesis by blast
qed

lemma prepare_arguments_result:
  assumes "(if body req = [] then Inr (PDict []) else lds (body req)) = Inr (PDict b)"
    and "distinct (map fst b)"
    and "distinct (map fst (query_arguments req))"
    and "\<forall>(key, vals) \<in> set (query_arguments req). \<forall>val \<in> set vals. lds val = Inr (dec val)"
  shows "\<exists>d. prepare_arguments lds req = Inr d
             \<and> map_of d = legacy_merged b (spec_query_map dec (query_arguments req))"
proof -
  from merged_query [OF assms(3,4), of "[]"]
  obtain d' where d': "(if length (query_arguments req) \<ge> 1
                        then merge_query_arguments lds [] (query_arguments req) else Inr []) = Inr d'"
    and m: "map_of d' = spec_query_map dec (query_arguments req)"
    by auto
  show ?thesis
  proof (cases "body req = []")
    case True
    with assms(1) have "b = []" by simp
    with True d' m show ?thesis
      unfolding prepare_arguments_def d' by (simp add: legacy_merged_def)
  next
    case False
    with assms(1) have "lds (body req) = Inr (PDict b)" by simp
    with False m show ?thesis
      unfolding prepare_arguments_def d'
      by (simp add: legacy_merged_def fold_update_map_of map_of_rev_distinct [OF assms(2)])
  qed
qed


lemma legacy_try_result:
  assumes "(if body req = [] then Inr (PDict []) else lds (body req)) = Inr (PDict b)"
    and "distinct (map fst b)"
    and "distinct (map fst (query_arguments req))"
    and "\<forall>(key, vals) \<in> set (query_arguments req). \<forall>val \<in> set vals. lds val = Inr (dec val)"
    and "map_of (instructions res) http_method = Some instruction"
  shows "\<exists>arguments ctx timeout.
           legacy_try lds async_execute res req http_method
             = (case async_execute instruction arguments ctx timeout of
                  Inl e \<Rightarrow> ([Execute instruction arguments ctx timeout], Inl e)
                | Inr reply \<Rightarrow>
                    (Execute instruction arguments ctx timeout # set_custom_default_headers,
                     Inr reply))
           \<and> map_of arguments
               = forwarded (if http_request_as_argument res then Some req else None)
                   (legacy_merged b (spec_query_map dec (query_arguments req)))
           \<and> timeout = (case legacy_merged b (spec_query_map dec (query_arguments req))
                               (PStr ''timeout'') of None \<Rightarrow> PNone | Some v \<Rightarrow> v)"
proof -
  let ?M = "legacy_merged b (spec_query_map dec (query_arguments req))"
  from prepare_arguments_result [OF assms(1-4)]
  obtain d where d: "prepare_arguments lds req = Inr d" and m: "map_of d = ?M" by blast
  let ?args = "AList.delete (PStr ''timeout'') (AList.delete (PStr ''fetch_execution_logs'') d)"
  let ?final = "if http_request_as_argument res
                then AList.update (PStr ''request'') (PRequest req) ?args else ?args"
  let ?ctx = "[(PStr ''fetch_execution_logs'',
                case ?M (PStr ''fetch_execution_logs'') of None \<Rightarrow> PBool False | Some v \<Rightarrow> v)]"
  let ?t = "case ?M (PStr ''timeout'') of None \<Rightarrow> PNone | Some v \<Rightarrow> v"
  have "legacy_try lds async_execute res req http_method
          = (case async_execute instruction ?final ?ctx ?t of
               Inl e \<Rightarrow> ([Execute instruction ?final ?ctx ?t], Inl e)
             | Inr reply \<Rightarrow> (Execute instruction ?final ?ctx ?t # set_custom_default_headers, Inr reply))"
    unfolding legacy_try_def d
    by (simp add: pop_def timeout_after_logs m assms(5) Let_def split: sum.splits)
  moreover have "map_of ?final
                   = forwarded (if http_request_as_argument res then Some req else None) ?M"
    by (simp add: forwarded_def forwarded_delete update_conv' m)
  ultimately show ?thesis by blast
qed

lemma forwarded_reserved:
  "forwarded w m (PStr ''timeout'') = None" "forwarded w m (PStr ''fetch_execution_logs'') = None"
  by (simp_all add: forwarded_def reserved_keys_def split: option.splits)

lemma legacy_try_execute_first:
  assumes "legacy_try lds async_execute res req http_method
             = (case async_execute instruction arguments ctx timeout of
                  Inl e \<Rightarrow> ([Execute instruction arguments ctx timeout], Inl e)
                | Inr reply \<Rightarrow>
                    (Execute instruction arguments ctx timeout # set_custom_default_headers,
                     Inr reply))"
  shows "hd (fst (legacy_try lds async_execute res req http_method))
           = Execute instruction arguments ctx timeout"
  using assms by (simp split: sum.splits)


text \<open>
  C3, as the code has it. Take a request whose body is empty or decodes to a JSON
  object \<open>b\<close>, and whose query values all decode; a dict has each key once. In the HTTP
  gateway, the arguments that \<^verbatim>\<open>get_execution_parameters\<close> returns are the body's map with
  the decoded query parameters merged over it (a query key wins over the same key of the
  body, a parameter with several values is the list of its decoded values), without the
  reserved keys \<open>timeout\<close> and \<open>fetch_execution_logs\<close>, whichever source supplied them,
  and with the request object under \<open>request\<close> when the resource asks for it. That is
  so when the merged timeout is \<^verbatim>\<open>None\<close> or a number; for any other timeout the comparison
  with zero raises \<^verbatim>\<open>TypeError\<close> and no arguments are returned. In the legacy handler the
  arguments handed to \<^verbatim>\<open>async_execute\<close> are built the other way round: the body's value
  wins over the query's; the reserved keys are removed and the request object is added
  in the same way.
\<close>

theorem argument_merge:
  assumes "(if body req = [] then Inr (PDict []) else lds (body req)) = Inr (PDict b)"
    and "distinct (map fst b)"
    and "distinct (map fst (query_arguments req))"
    and "\<forall>(key, vals) \<in> set (query_arguments req). \<forall>val \<in> set vals. lds val = Inr (dec val)"
    and "map_of (instructions lres) http_method = Some instruction"
  shows "(is_timeout (spec_merged b (spec_query_map dec (query_arguments req)) (PStr ''timeout'')) \<longrightarrow>
          (\<exists>arguments context timeout.
             get_execution_parameters lds res req = Inr (PDict arguments, context, timeout)
             \<and> map_of arguments
                 = forwarded (if request_as_argument res then Some req else None)
                     (spec_merged b (spec_query_map dec (query_arguments req)))))
       \<and> (\<not> is_timeout (spec_merged b (spec_query_map dec (query_arguments req)) (PStr ''timeout'')) \<longrightarrow>
          get_execution_parameters lds res req = Inl TypeError)
       \<and> (\<exists>arguments context timeout.
            hd (fst (legacy_try lds async_execute lres req http_method))
              = Execute instruction arguments context timeout
            \<and> map_of arguments
                = forwarded (if http_request_as_argument lres then Some req else None)
                    (legacy_merged b (spec_query_map dec (query_arguments req))))"
proof (intro conjI)
  from get_execution_parameters_result [OF assms(1,3,4), of res]
  show "is_timeout (spec_merged b (spec_query_map dec (query_arguments req)) (PStr ''timeout'')) \<longrightarrow>
          (\<exists>arguments context timeout.
             get_execution_parameters lds res req = Inr (PDict arguments, context, timeout)
             \<and> map_of arguments
                 = forwarded (if request_as_argument res then Some req else None)
                     (spec_merged b (spec_query_map dec (query_arguments req))))"
    by blast
  from get_execution_parameters_result [OF assms(1,3,4), of res]
  show "\<not> is_timeout (spec_merged b (spec_query_map dec (query_arguments req)) (PStr ''timeout'')) \<longrightarrow>
          get_execution_parameters lds res req = Inl TypeError"
    by blast
  from legacy_try_result [OF assms(1,2,3,4,5), of async_execute]
  obtain arguments ctx timeout where
    r: "legacy_try lds async_execute lres req http_method
          = (case async_execute instruction arguments ctx timeout of
               Inl e \<Rightarrow> ([Execute instruction arguments ctx timeout], Inl e)
             | Inr reply \<Rightarrow>
                 (Execute instruction arguments ctx timeout # set_custom_default_headers,
                  Inr reply))"
    and m: "map_of arguments = forwarded (if http_request_as_argument lres then Some req else None)
                    (legacy_merged b (spec_query_map dec (query_arguments req)))"
    by blast
  from legacy_try_execute_first [OF r] m
  show "\<exists>arguments context timeout.
            hd (fst (legacy_try lds async_execute lres req http_method))
              = Execute instruction arguments context timeout
            \<and> map_of arguments
                = forwarded (if http_request_as_argument lres then Some req else None)
                    (legacy_merged b (spec_query_map dec (query_arguments req)))"
    by blast
qed

text \<open>
  The example of the specification: body \<open>{"a":1}\<close> and query \<open>?b=2&c=3&c=4\<close>.
\<close>

lemma argument_merge_example:
  \<open>get_execution_parameters sample_loads
     \<lparr>readOnly = False, writeOnly = False, request_as_argument = False\<rparr>
     \<lparr>origin = None, body = ''{"a":1}'',
      query_arguments = [(''b'', [''2'']), (''c'', [''3'', ''4''])]\<rparr>
   = Inr (PDict [(PStr ''a'', PInt 1), (PStr ''b'', PInt 2), (PStr ''c'', PList [PInt 3, PInt 4])],
          [(PStr ''fetch_execution_logs'', PBool False)], PNone)\<close>
  by (simp add: get_execution_parameters_def sample_loads_def load_query_value_def pop_def)

theorem argument_merge_witness:
  \<open>(\<exists>arguments context timeout.
       get_execution_parameters sample_loads
         \<lparr>readOnly = False, writeOnly = False, request_as_argument = False\<rparr>
         \<lparr>origin = None, body = ''{"a":1}'',
          query_arguments = [(''b'', [''2'']), (''c'', [''3'', ''4''])]\<rparr>
         = Inr (PDict arguments, context, timeout)
       \<and> map_of arguments
           = forwarded None
               (spec_merged [(PStr ''a'', PInt 1)]
                  (spec_query_map sample_dec [(''b'', [''2'']), (''c'', [''3'', ''4''])])))
    \<and> get_execution_parameters sample_loads
         \<lparr>readOnly = False, writeOnly = False, request_as_argument = False\<rparr>
         \<lparr>origin = None, body = ''{"a":1}'', query_arguments = [(''timeout'', [''"soon"''])]\<rparr>
       = Inl TypeError
    \<and> (\<exists>arguments context timeout.
       hd (fst (legacy_try sample_loads (\<lambda>i a c t. Inr (PBytes ''ok''))
                 \<lparr>instructions = [(''PUT'', ''/thing/x'')], http_request_as_argument = False\<rparr>
                 \<lparr>origin = None, body = ''{"a":1}'',
                  query_arguments = [(''b'', [''2'']), (''c'', [''3'', ''4''])]\<rparr> ''PUT''))
         = Execute ''/thing/x'' arguments context timeout
       \<and> map_of arguments
           = forwarded None
               (legacy_merged [(PStr ''a'', PInt 1)]
                  (spec_query_map sample_dec [(''b'', [''2'']), (''c'', [''3'', ''4''])])))\<close>
  using argument_merge
    [of \<open>\<lparr>origin = None, body = ''{"a":1}'',
          query_arguments = [(''b'', [''2'']), (''c'', [''3'', ''4''])]\<rparr>\<close>
        sample_loads \<open>[(PStr ''a'', PInt 1)]\<close> sample_dec
        \<open>\<lparr>instructions = [(''PUT'', ''/thing/x'')], http_request_as_argument = False\<rparr>\<close>
        \<open>''PUT''\<close> \<open>''/thing/x''\<close>
        \<open>\<lparr>readOnly = False, writeOnly = False, request_as_argument = False\<rparr>\<close>
        \<open>\<lambda>i a c t. Inr (PBytes ''ok'')\<close>]
    argument_merge
    [of \<open>\<lparr>origin = None, body = ''{"a":1}'', query_arguments = [(''timeout'', [''"soon"''])]\<rparr>\<close>
        sample_loads \<open>[(PStr ''a'', PInt 1)]\<close> sample_dec
        \<open>\<lparr>instructions = [(''PUT'', ''/thing/x'')], http_request_as_argument = False\<rparr>\<close>
        \<open>''PUT''\<close> \<open>''/thing/x''\<close>
        \<open>\<lparr>readOnly = False, writeOnly = False, request_as_argument = False\<rparr>\<close>
        \<open>\<lambda>i a c t. Inr (PBytes ''ok'')\<close>]
  by (simp add: sample_loads_def sample_dec_def spec_merged_def spec_query_map_def
        spec_query_value_def)

text \<open>
  In the legacy handler, body \<open>{"a":1}\<close> and query \<open>?a=2\<close> forward \<open>a = 1\<close>: the
  body is laid over the query parameters.
\<close>

theorem legacy_body_over_query_counterexample:
  \<open>legacy_try sample_loads (\<lambda>i a c t. Inr (PBytes ''ok''))
     \<lparr>instructions = [(''PUT'', ''/thing/x'')], http_request_as_argument = False\<rparr>
     \<lparr>origin = None, body = ''{"a":1}'', query_arguments = [(''a'', [''2''])]\<rparr> ''PUT''
   = (Execute ''/thing/x'' [(PStr ''a'', PInt 1)] [(PStr ''fetch_execution_logs'', PBool False)] PNone
        # set_custom_default_headers,
      Inr (PBytes ''ok''))\<close>
  by (simp add: legacy_try_def prepare_arguments_def sample_loads_def load_query_value_def
        pop_def)

lemma lt_zero_negative: "lt_zero t = Inr neg \<Longrightarrow> neg = negative_number t"
  by (cases t) auto

lemma spec_timeout_not_negative: "\<not> negative_number (spec_timeout t)"
  by (cases t rule: spec_timeout.cases) auto

lemma get_execution_parameters_timeout_safe:
  assumes "get_execution_parameters lds res req = Inr (arguments, context, timeout)"
  shows "\<not> negative_number timeout
         \<and> (\<forall>a. arguments = PDict a \<longrightarrow> map_of a (PStr ''timeout'') = None)"
proof -
  from assms obtain loaded where
    ld: "(if length (body req) > 0 then lds (body req) else Inr (PDict [])) = Inr loaded"
    by (cases "if length (body req) > 0 then lds (body req) else Inr (PDict [])")
       (simp_all add: get_execution_parameters_def)
  show ?thesis
  proof (cases "\<exists>a0. loaded = PDict a0")
    case False
    with assms ld have "arguments = loaded \<and> timeout = PInt 5"
      unfolding get_execution_parameters_def ld sum.case
      by (cases loaded) auto
    with False show ?thesis by auto
  next
    case True
    then obtain a0 where a0: "loaded = PDict a0" by blast
    let ?m = "if length (query_arguments req) \<ge> 1
              then merge_query_arguments lds a0 (query_arguments req) else Inr a0"
    from assms obtain a1 where a1: "?m = Inr a1"
      unfolding get_execution_parameters_def ld sum.case a0 pyval.case
      by (cases ?m) simp_all
    let ?t = "case map_of (AList.delete (PStr ''fetch_execution_logs'') a1) (PStr ''timeout'') of
                None \<Rightarrow> PNone | Some v \<Rightarrow> v"
    let ?args = "AList.delete (PStr ''timeout'') (AList.delete (PStr ''fetch_execution_logs'') a1)"
    from assms obtain neg where
      neg: "(if ?t \<noteq> PNone then lt_zero ?t else Inr False) = Inr neg"
      and res: "arguments = PDict (if request_as_argument res
                                   then AList.update (PStr ''request'') (PRequest req) ?args
                                   else ?args)"
               "timeout = (if neg then PNone else ?t)"
      unfolding get_execution_parameters_def ld sum.case a0 pyval.case a1
      by (cases "if ?t \<noteq> PNone then lt_zero ?t else Inr False") (simp_all add: pop_def)
    from neg have "neg = negative_number ?t"
      by (cases "?t = PNone") (simp_all add: lt_zero_negative)
    with res show ?thesis
      by (auto simp: update_conv' delete_conv')
  qed
qed


lemma get_execution_parameters_scalar_body:
  assumes "body req \<noteq> []" and "lds (body req) = Inr v" and "\<forall>a. v \<noteq> PDict a"
  shows "get_execution_parameters lds res req = Inr (v, [], PInt 5)"
  using assms by (cases v) (simp_all add: get_execution_parameters_def)

text \<open>
  C7, as the code has it. In the HTTP gateway, whenever \<^verbatim>\<open>get_execution_parameters\<close>
  returns, the timeout it returns is not a negative number, and if the arguments it
  returns are a dict, \<open>timeout\<close> is not one of its keys. More exactly: for a body that
  is empty or a JSON object, with query values that decode, the returned timeout is the
  merged map's value with a negative number (integer or float) replaced by \<^verbatim>\<open>None\<close>, and
  a value that is neither \<^verbatim>\<open>None\<close> nor a number raises \<^verbatim>\<open>TypeError\<close>; for a body that
  decodes to anything but an object, the query string is not read, the decoded body is
  returned as the arguments, and the timeout is the fixed 5. The legacy handler removes
  the \<open>timeout\<close> key from the arguments and hands the value to \<^verbatim>\<open>async_execute\<close> as
  \<^verbatim>\<open>server_timeout\<close> unchanged.
\<close>

theorem timeout_extraction:
  "(get_execution_parameters lds res req = Inr (args, ctx, tmo) \<longrightarrow>
      \<not> negative_number tmo
      \<and> (\<forall>a. args = PDict a \<longrightarrow> map_of a (PStr ''timeout'') = None))
   \<and> ((if body req = [] then Inr (PDict []) else lds (body req)) = Inr (PDict b)
        \<and> distinct (map fst (query_arguments req))
        \<and> (\<forall>(key, vals) \<in> set (query_arguments req). \<forall>val \<in> set vals. lds val = Inr (dec val)) \<longrightarrow>
      (is_timeout (spec_merged b (spec_query_map dec (query_arguments req)) (PStr ''timeout'')) \<longrightarrow>
         (\<exists>arguments context.
            get_execution_parameters lds res req
              = Inr (PDict arguments, context,
                     spec_timeout (spec_merged b (spec_query_map dec (query_arguments req))
                                     (PStr ''timeout'')))))
      \<and> (\<not> is_timeout (spec_merged b (spec_query_map dec (query_arguments req)) (PStr ''timeout'')) \<longrightarrow>
         get_execution_parameters lds res req = Inl TypeError))
   \<and> (body req \<noteq> [] \<and> lds (body req) = Inr v \<and> (\<forall>a. v \<noteq> PDict a) \<longrightarrow>
      get_execution_parameters lds res req = Inr (v, [], PInt 5))
   \<and> ((if body req = [] then Inr (PDict []) else lds (body req)) = Inr (PDict b)
        \<and> distinct (map fst b)
        \<and> distinct (map fst (query_arguments req))
        \<and> (\<forall>(key, vals) \<in> set (query_arguments req). \<forall>val \<in> set vals. lds val = Inr (dec val))
        \<and> map_of (instructions lres) http_method = Some instruction \<longrightarrow>
      (\<exists>arguments context timeout.
         hd (fst (legacy_try lds async_execute lres req http_method))
           = Execute instruction arguments context timeout
         \<and> map_of arguments (PStr ''timeout'') = None
         \<and> timeout = (case legacy_merged b (spec_query_map dec (query_arguments req))
                              (PStr ''timeout'') of None \<Rightarrow> PNone | Some v \<Rightarrow> v)))"
proof (intro conjI impI)
  assume "get_execution_parameters lds res req = Inr (args, ctx, tmo)"
  from get_execution_parameters_timeout_safe [OF this]
  show "\<not> negative_number tmo" and "\<forall>a. args = PDict a \<longrightarrow> map_of a (PStr ''timeout'') = None"
    by blast+
next
  assume a: "(if body req = [] then Inr (PDict []) else lds (body req)) = Inr (PDict b)
        \<and> distinct (map fst (query_arguments req))
        \<and> (\<forall>(key, vals) \<in> set (query_arguments req). \<forall>val \<in> set vals. lds val = Inr (dec val))"
  then have r: "(is_timeout (spec_merged b (spec_query_map dec (query_arguments req)) (PStr ''timeout'')) \<longrightarrow>
          (\<exists>arguments.
             get_execution_parameters lds res req
               = Inr (PDict arguments,
                      [(PStr ''fetch_execution_logs'',
                        case spec_merged b (spec_query_map dec (query_arguments req))
                               (PStr ''fetch_execution_logs'') of
                          None \<Rightarrow> PBool False | Some v \<Rightarrow> v)],
                      spec_timeout (spec_merged b (spec_query_map dec (query_arguments req))
                                      (PStr ''timeout'')))
             \<and> map_of arguments
                 = forwarded (if request_as_argument res then Some req else None)
                     (spec_merged b (spec_query_map dec (query_arguments req)))))
       \<and> (\<not> is_timeout (spec_merged b (spec_query_map dec (query_arguments req)) (PStr ''timeout'')) \<longrightarrow>
          get_execution_parameters lds res req = Inl TypeError)"
    by (intro get_execution_parameters_result) simp_all
  {
    assume "is_timeout (spec_merged b (spec_query_map dec (query_arguments req)) (PStr ''timeout''))"
    with r show "\<exists>arguments context.
            get_execution_parameters lds res req
              = Inr (PDict arguments, context,
                     spec_timeout (spec_merged b (spec_query_map dec (query_arguments req))
                                     (PStr ''timeout'')))"
      by blast
  }
  {
    assume "\<not> is_timeout (spec_merged b (spec_query_map dec (query_arguments req)) (PStr ''timeout''))"
    with r show "get_execution_parameters lds res req = Inl TypeError" by blast
  }
next
  assume "body req \<noteq> [] \<and> lds (body req) = Inr v \<and> (\<forall>a. v \<noteq> PDict a)"
  then show "get_execution_parameters lds res req = Inr (v, [], PInt 5)"
    by (intro get_execution_parameters_scalar_body) simp_all
next
  assume a: "(if body req = [] then Inr (PDict []) else lds (body req)) = Inr (PDict b)
        \<and> distinct (map fst b)
        \<and> distinct (map fst (query_arguments req))
        \<and> (\<forall>(key, vals) \<in> set (query_arguments req). \<forall>val \<in> set vals. lds val = Inr (dec val))
        \<and> map_of (instructions lres) http_method = Some instruction"
  then have "\<exists>arguments ctx timeout.
           legacy_try lds async_execute lres req http_method
             = (case async_execute instruction arguments ctx timeout of
                  Inl e \<Rightarrow> ([Execute instruction arguments ctx timeout], Inl e)
                | Inr reply \<Rightarrow>
                    (Execute instruction arguments ctx timeout # set_custom_default_headers,
                     Inr reply))
           \<and> map_of arguments
               = forwarded (if http_request_as_argument lres then Some req else None)
                   (legacy_merged b (spec_query_map dec (query_arguments req)))
           \<and> timeout = (case legacy_merged b (spec_query_map dec (query_arguments req))
                               (PStr ''timeout'') of None \<Rightarrow> PNone | Some v \<Rightarrow> v)"
    by (intro legacy_try_result) simp_all
  then obtain arguments c timeout where
    r: "legacy_try lds async_execute lres req http_method
          = (case async_execute instruction arguments c timeout of
               Inl e \<Rightarrow> ([Execute instruction arguments c timeout], Inl e)
             | Inr reply \<Rightarrow>
                 (Execute instruction arguments c timeout # set_custom_default_headers,
                  Inr reply))"
    and m: "map_of arguments = forwarded (if http_request_as_argument lres then Some req else None)
                    (legacy_merged b (spec_query_map dec (query_arguments req)))"
    and t: "timeout = (case legacy_merged b (spec_query_map dec (query_arguments req))
                                 (PStr ''timeout'') of None \<Rightarrow> PNone | Some v \<Rightarrow> v)"
    by blast
  from legacy_try_execute_first [OF r] m t
  show "\<exists>arguments context timeout.
         hd (fst (legacy_try lds async_execute lres req http_method))
           = Execute instruction arguments context timeout
         \<and> map_of arguments (PStr ''timeout'') = None
         \<and> timeout = (case legacy_merged b (spec_query_map dec (query_arguments req))
                              (PStr ''timeout'') of None \<Rightarrow> PNone | Some v \<Rightarrow> v)"
    by (simp add: forwarded_reserved)
qed


lemma timeout_extraction_examples:
  \<open>get_execution_parameters sample_loads
     \<lparr>readOnly = False, writeOnly = False, request_as_argument = False\<rparr>
     \<lparr>origin = None, body = ''{"a":1,"timeout":-1}'', query_arguments = []\<rparr>
   = Inr (PDict [(PStr ''a'', PInt 1)], [(PStr ''fetch_execution_logs'', PBool False)], PNone)\<close>
  \<open>get_execution_parameters sample_loads
     \<lparr>readOnly = False, writeOnly = False, request_as_argument = False\<rparr>
     \<lparr>origin = None, body = [], query_arguments = [(''timeout'', [''-0.5''])]\<rparr>
   = Inr (PDict [], [(PStr ''fetch_execution_logs'', PBool False)], PNone)\<close>
  \<open>get_execution_parameters sample_loads
     \<lparr>readOnly = False, writeOnly = False, request_as_argument = False\<rparr>
     \<lparr>origin = None, body = [], query_arguments = [(''timeout'', [''2''])]\<rparr>
   = Inr (PDict [], [(PStr ''fetch_execution_logs'', PBool False)], PInt 2)\<close>
  \<open>get_execution_parameters sample_loads
     \<lparr>readOnly = False, writeOnly = False, request_as_argument = False\<rparr>
     \<lparr>origin = None, body = ''[1]'', query_arguments = [(''timeout'', [''-1''])]\<rparr>
   = Inr (PList [PInt 1], [], PInt 5)\<close>
  by (simp_all add: get_execution_parameters_def sample_loads_def load_query_value_def pop_def)

theorem timeout_extraction_witness:
  \<open>(get_execution_parameters sample_loads
       \<lparr>readOnly = False, writeOnly = False, request_as_argument = False\<rparr>
       \<lparr>origin = None, body = ''{"a":1,"timeout":-1}'', query_arguments = []\<rparr>
      = Inr (PDict [(PStr ''a'', PInt 1)], [(PStr ''fetch_execution_logs'', PBool False)], PNone)
     \<and> \<not> negative_number PNone
     \<and> map_of [(PStr ''a'', PInt 1)] (PStr ''timeout'') = None)
   \<and> (\<exists>arguments context.
        get_execution_parameters sample_loads
          \<lparr>readOnly = False, writeOnly = False, request_as_argument = False\<rparr>
          \<lparr>origin = None, body = [], query_arguments = [(''timeout'', [''-0.5''])]\<rparr>
        = Inr (PDict arguments, context, PNone))
   \<and> get_execution_parameters sample_loads
        \<lparr>readOnly = False, writeOnly = False, request_as_argument = False\<rparr>
        \<lparr>origin = None, body = ''[1]'', query_arguments = [(''timeout'', [''-1''])]\<rparr>
      = Inr (PList [PInt 1], [], PInt 5)
   \<and> (\<exists>arguments context timeout.
        hd (fst (legacy_try sample_loads (\<lambda>i a c t. Inr (PBytes ''ok''))
                  \<lparr>instructions = [(''PUT'', ''/thing/x'')], http_request_as_argument = False\<rparr>
                  \<lparr>origin = None, body = ''{"a":1,"timeout":-1}'', query_arguments = []\<rparr>
                  ''PUT''))
          = Execute ''/thing/x'' arguments context timeout
        \<and> map_of arguments (PStr ''timeout'') = None
        \<and> timeout = PInt (- 1))\<close>
  using timeout_extraction
    [where lds = sample_loads and dec = sample_dec
       and res = \<open>\<lparr>readOnly = False, writeOnly = False, request_as_argument = False\<rparr>\<close>
       and req = \<open>\<lparr>origin = None, body = ''{"a":1,"timeout":-1}'', query_arguments = []\<rparr>\<close>
       and args = \<open>PDict [(PStr ''a'', PInt 1)]\<close>
       and ctx = \<open>[(PStr ''fetch_execution_logs'', PBool False)]\<close>
       and tmo = PNone
       and b = \<open>[(PStr ''a'', PInt 1), (PStr ''timeout'', PInt (- 1))]\<close>
       and v = PNone
       and lres = \<open>\<lparr>instructions = [(''PUT'', ''/thing/x'')], http_request_as_argument = False\<rparr>\<close>
       and http_method = \<open>''PUT''\<close> and instruction = \<open>''/thing/x''\<close>
       and async_execute = \<open>\<lambda>i a c t. Inr (PBytes ''ok'')\<close>]
    timeout_extraction
    [where lds = sample_loads and dec = sample_dec
       and res = \<open>\<lparr>readOnly = False, writeOnly = False, request_as_argument = False\<rparr>\<close>
       and req = \<open>\<lparr>origin = None, body = [], query_arguments = [(''timeout'', [''-0.5''])]\<rparr>\<close>
       and args = PNone and ctx = \<open>[]\<close> and tmo = PNone
       and b = \<open>[]\<close> and v = PNone
       and lres = \<open>\<lparr>instructions = [(''PUT'', ''/thing/x'')], http_request_as_argument = False\<rparr>\<close>
       and http_method = \<open>''PUT''\<close> and instruction = \<open>''/thing/x''\<close>
       and async_execute = \<open>\<lambda>i a c t. Inr (PBytes ''ok'')\<close>]
    timeout_extraction
    [where lds = sample_loads and dec = sample_dec
       and res = \<open>\<lparr>readOnly = False, writeOnly = False, request_as_argument = False\<rparr>\<close>
       and req = \<open>\<lparr>origin = None, body = ''[1]'', query_arguments = [(''timeout'', [''-1''])]\<rparr>\<close>
       and args = PNone and ctx = \<open>[]\<close> and tmo = PNone
       and b = \<open>[]\<close> and v = \<open>PList [PInt 1]\<close>
       and lres = \<open>\<lparr>instructions = [(''PUT'', ''/thing/x'')], http_request_as_argument = False\<rparr>\<close>
       and http_method = \<open>''PUT''\<close> and instruction = \<open>''/thing/x''\<close>
       and async_execute = \<open>\<lambda>i a c t. Inr (PBytes ''ok'')\<close>]
    timeout_extraction_examples(1)
  by (simp add: sample_loads_def sample_dec_def spec_merged_def legacy_merged_def
        spec_query_map_def spec_query_value_def)

text \<open>
  In the legacy handler the query \<open>?timeout=-1\<close> reaches the broker as the server
  timeout \<open>-1\<close>.
\<close>

theorem legacy_negative_timeout_counterexample:
  \<open>legacy_try sample_loads (\<lambda>i a c t. Inr (PBytes ''ok''))
     \<lparr>instructions = [(''PUT'', ''/thing/x'')], http_request_as_argument = False\<rparr>
     \<lparr>origin = None, body = [], query_arguments = [(''timeout'', [''-1''])]\<rparr> ''PUT''
   = (Execute ''/thing/x'' [] [(PStr ''fetch_execution_logs'', PBool False)] (PInt (- 1))
        # set_custom_default_headers,
      Inr (PBytes ''ok''))\<close>
  by (simp add: legacy_try_def prepare_arguments_def sample_loads_def load_query_value_def
        pop_def)

subsection \<open>Writing the reply\<close>

lemma legacy_try_reply:
  assumes "prepare_arguments lds req = Inr arguments"
    and "map_of (instructions res) http_method = Some instruction"
    and "\<forall>i a c t. async_execute i a c t = Inr reply"
  shows "\<exists>a c t. legacy_try lds async_execute res req http_method
           = (Execute instruction a c t # set_custom_default_headers, Inr reply)"
  using assms by (simp add: legacy_try_def pop_def Let_def)

text \<open>
  C5, as the code has it. When the attempt succeeds, the HTTP gateway sets status 200
  and the headers, writes the reply exactly when the reply is truthy, and finishes; a
  reply that is empty or otherwise falsy is not written. The legacy handler does the
  same after its broker call returns: status 200, the headers, and the reply only if
  it is truthy.
\<close>

theorem successful_reply_written_if_truthy:
  "(outcome 0 = Inr reply \<longrightarrow>
      handle_through_thing outcome opn 0 []
        = Some ([Attempt opn, SetStatus 200] @ set_headers
                  @ (if truthy reply then [Write reply] else []) @ [Finish]))
   \<and> (prepare_arguments lds req = Inr arguments
        \<and> map_of (instructions res) http_method = Some instruction
        \<and> (\<forall>i a c t. async_execute i a c t = Inr reply) \<longrightarrow>
      (\<exists>a c t. handle_through_remote_object lds async_execute CORS res req http_method
         = Execute instruction a c t # set_custom_default_headers
             @ (if truthy reply then [Write reply] else [])))"
proof (intro conjI impI)
  assume "outcome 0 = Inr reply"
  then show "handle_through_thing outcome opn 0 []
        = Some ([Attempt opn, SetStatus 200] @ set_headers
                  @ (if truthy reply then [Write reply] else []) @ [Finish])"
    by (subst handle_through_thing.simps) (simp add: write_reply_def)
next
  assume a: "prepare_arguments lds req = Inr arguments
        \<and> map_of (instructions res) http_method = Some instruction
        \<and> (\<forall>i a c t. async_execute i a c t = Inr reply)"
  then have "http_method \<in> fst ` set (instructions res)"
    by (auto dest: map_of_SomeD intro: rev_image_eqI)
  moreover from a legacy_try_reply [of lds req arguments res http_method instruction async_execute reply]
  obtain x c t where "legacy_try lds async_execute res req http_method
           = (Execute instruction x c t # set_custom_default_headers, Inr reply)"
    by blast
  ultimately show "\<exists>a c t. handle_through_remote_object lds async_execute CORS res req http_method
         = Execute instruction a c t # set_custom_default_headers
             @ (if truthy reply then [Write reply] else [])"
    by (simp add: handle_through_remote_object_def legacy_has_access_control_def write_reply_def)
qed

theorem successful_reply_written_if_truthy_witness:
  \<open>handle_through_thing (\<lambda>n. Inr (PBytes ''42'')) readProperty 0 []
     = Some ([Attempt readProperty, SetStatus 200] @ set_headers @ [Write (PBytes ''42''), Finish])
   \<and> (\<exists>a c t. handle_through_remote_object sample_loads (\<lambda>i a c t. Inr (PBytes ''42'')) []
         \<lparr>instructions = [(''PUT'', ''/thing/x'')], http_request_as_argument = False\<rparr>
         \<lparr>origin = None, body = ''{"a":1}'', query_arguments = []\<rparr> ''PUT''
         = Execute ''/thing/x'' a c t # set_custom_default_headers @ [Write (PBytes ''42'')])\<close>
  using successful_reply_written_if_truthy
    [of \<open>\<lambda>n. Inr (PBytes ''42'')\<close> \<open>PBytes ''42''\<close> readProperty sample_loads
        \<open>\<lparr>origin = None, body = ''{"a":1}'', query_arguments = []\<rparr>\<close>
        \<open>[(PStr ''a'', PInt 1)]\<close>
        \<open>\<lparr>instructions = [(''PUT'', ''/thing/x'')], http_request_as_argument = False\<rparr>\<close>
        \<open>''PUT''\<close> \<open>''/thing/x''\<close> \<open>\<lambda>i a c t. Inr (PBytes ''42'')\<close> \<open>[]\<close>]
  by (simp add: prepare_arguments_def sample_loads_def)

text \<open>
  A successful dispatch whose reply is the empty byte string: neither handler calls
  \<^verbatim>\<open>write\<close>.
\<close>

theorem empty_reply_not_written_counterexample:
  \<open>handle_through_thing (\<lambda>n. Inr (PBytes [])) readProperty 0 []
     = Some [Attempt readProperty, SetStatus 200,
             SetHeader ''Content-Type'' ''application/json'',
             SetHeader ''Access-Control-Allow-Credentials'' ''true'', Finish]
   \<and> handle_through_remote_object sample_loads (\<lambda>i a c t. Inr (PBytes [])) []
         \<lparr>instructions = [(''PUT'', ''/thing/x'')], http_request_as_argument = False\<rparr>
         \<lparr>origin = None, body = ''{"a":1}'', query_arguments = []\<rparr> ''PUT''
     = [Execute ''/thing/x'' [(PStr ''a'', PInt 1)] [(PStr ''fetch_execution_logs'', PBool False)] PNone,
        SetStatus 200, SetHeader ''Content-Type'' ''application/json'',
        SetHeader ''Access-Control-Allow-Credentials'' ''true'']\<close>
  by (simp add: handle_through_thing.simps set_headers_def write_reply_def
        handle_through_remote_object_def legacy_has_access_control_def legacy_try_def
        prepare_arguments_def sample_loads_def pop_def set_custom_default_headers_def)

text \<open>
  With the \<^verbatim>\<open>try\<close> block as it is written, a request whose execution parameters can be
  read is answered with status 500 and the description of the \<^verbatim>\<open>ValueError\<close>, after one
  attempt.
\<close>

lemma handle_through_thing_as_written:
  assumes "get_execution_parameters lds res req = Inr returned"
  shows "handle_through_thing (\<lambda>n. try_block lds res req) opn 0 []
           = Some ([Attempt opn, SetStatus 500] @ set_headers @ [WriteException ValueError, Finish])"
  using assms
  by (subst handle_through_thing.simps) (simp add: try_block_def write_reply_def)

subsection \<open>Legacy access control\<close>

lemma prepare_arguments_origin:
  "prepare_arguments lds (req\<lparr>origin := org\<rparr>) = prepare_arguments lds req"
  by (simp add: prepare_arguments_def cong: sum.case_cong if_cong)

lemma legacy_try_cases:
  "(\<exists>e. prepare_arguments lds req = Inl e
        \<and> legacy_try lds async_execute res req http_method = ([], Inl e))
   \<or> ((\<exists>arguments. prepare_arguments lds req = Inr arguments)
        \<and> map_of (instructions res) http_method = None
        \<and> legacy_try lds async_execute res req http_method = ([], Inl OtherException))
   \<or> ((\<exists>arguments. prepare_arguments lds req = Inr arguments)
        \<and> (\<exists>i a c t r. map_of (instructions res) http_method = Some i
              \<and> (legacy_try lds async_execute res req http_method = ([Execute i a c t], r)
                  \<or> legacy_try lds async_execute res req http_method
                      = (Execute i a c t # set_custom_default_headers, r))))"
proof (cases "prepare_arguments lds req")
  case (Inl e)
  then show ?thesis by (simp add: legacy_try_def)
next
  case (Inr arguments)
  show ?thesis
  proof (cases "map_of (instructions res) http_method")
    case None
    with Inr show ?thesis by (simp add: legacy_try_def pop_def)
  next
    case (Some i)
    let ?args = "AList.delete (PStr ''timeout'')
                   (AList.delete (PStr ''fetch_execution_logs'') arguments)"
    let ?a = "if http_request_as_argument res
              then AList.update (PStr ''request'') (PRequest req) ?args else ?args"
    let ?c = "[(PStr ''fetch_execution_logs'',
                case map_of arguments (PStr ''fetch_execution_logs'') of
                  None \<Rightarrow> PBool False | Some v \<Rightarrow> v)]"
    let ?t = "case map_of (AList.delete (PStr ''fetch_execution_logs'') arguments)
                     (PStr ''timeout'') of None \<Rightarrow> PNone | Some v \<Rightarrow> v"
    have eq: "legacy_try lds async_execute res req http_method
            = (case async_execute i ?a ?c ?t of
                 Inl e \<Rightarrow> ([Execute i ?a ?c ?t], Inl e)
               | Inr reply \<Rightarrow> (Execute i ?a ?c ?t # set_custom_default_headers, Inr reply))"
      using Inr Some by (simp add: legacy_try_def pop_def Let_def)
    have "\<exists>r. legacy_try lds async_execute res req http_method = ([Execute i ?a ?c ?t], r)
              \<or> legacy_try lds async_execute res req http_method
                   = (Execute i ?a ?c ?t # set_custom_default_headers, r)"
      unfolding eq by (cases "async_execute i ?a ?c ?t") auto
    with Inr Some show ?thesis by blast
  qed
qed

lemma legacy_try_executes:
  "(\<exists>i a c t. Execute i a c t \<in> set (fst (legacy_try lds async_execute res req http_method)))
     \<longleftrightarrow> (\<exists>arguments. prepare_arguments lds req = Inr arguments)
          \<and> http_method \<in> fst ` set (instructions res)"
  using legacy_try_cases [of lds req async_execute res http_method]
  by (elim disjE exE conjE)
     (auto simp: map_of_eq_None_iff set_custom_default_headers_def dest: map_of_SomeD
        intro: rev_image_eqI)

lemma legacy_try_no_403:
  "SetStatus 403 \<notin> set (fst (legacy_try lds async_execute res req http_method))"
  using legacy_try_cases [of lds req async_execute res http_method]
  by (elim disjE exE conjE) (auto simp: set_custom_default_headers_def)

lemma write_reply_plain:
  "SetStatus n \<notin> set (write_reply r)" "Execute i a c t \<notin> set (write_reply r)"
  by (auto simp: write_reply_def split: sum.splits)

lemma handle_through_remote_object_unfold:
  "handle_through_remote_object lds async_execute CORS res req http_method
     = (if http_method \<notin> fst ` set (instructions res) then [SetStatus 404]
        else fst (legacy_try lds async_execute res req http_method)
               @ write_reply (snd (legacy_try lds async_execute res req http_method)))"
  by (simp add: handle_through_remote_object_def legacy_has_access_control_def
        split: prod.splits)


text \<open>
  C9, as the code has it. The legacy \<^verbatim>\<open>has_access_control\<close> is true of every request and
  never looks at the \<^verbatim>\<open>Origin\<close> header, and \<^verbatim>\<open>handle_through_remote_object\<close> never sets
  status 403. A request is handed to the broker exactly when its verb is among the
  resource's instructions and \<^verbatim>\<open>prepare_arguments\<close> succeeds (the query values and the
  body decode, and the body can be merged into a dict); whether it is handed on does
  not depend on its origin or on the \<^verbatim>\<open>CORS\<close> list.
\<close>

theorem legacy_access_control_ignores_origin:
  "legacy_has_access_control CORS req = (True, [])
   \<and> SetStatus 403 \<notin> set (handle_through_remote_object lds async_execute CORS res req http_method)
   \<and> ((\<exists>i a c t. Execute i a c t
            \<in> set (handle_through_remote_object lds async_execute CORS res req http_method))
        \<longleftrightarrow> http_method \<in> fst ` set (instructions res)
            \<and> (\<exists>arguments. prepare_arguments lds req = Inr arguments))
   \<and> ((\<exists>i a c t. Execute i a c t
            \<in> set (handle_through_remote_object lds async_execute CORS' res
                     (req\<lparr>origin := org\<rparr>) http_method))
        \<longleftrightarrow> (\<exists>i a c t. Execute i a c t
            \<in> set (handle_through_remote_object lds async_execute CORS res req http_method)))"
proof (intro conjI)
  show "legacy_has_access_control CORS req = (True, [])"
    by (simp add: legacy_has_access_control_def)
  show "SetStatus 403 \<notin> set (handle_through_remote_object lds async_execute CORS res req http_method)"
    using legacy_try_no_403 [of lds async_execute res req http_method]
    by (simp add: handle_through_remote_object_unfold write_reply_plain)
  have dispatched: "(\<exists>i a c t. Execute i a c t
            \<in> set (handle_through_remote_object lds async_execute C res r http_method))
        \<longleftrightarrow> http_method \<in> fst ` set (instructions res)
            \<and> (\<exists>arguments. prepare_arguments lds r = Inr arguments)" for C r
    using legacy_try_executes [of lds async_execute res r http_method]
    by (simp add: handle_through_remote_object_unfold write_reply_plain)
  from dispatched [of CORS req]
  show "(\<exists>i a c t. Execute i a c t
            \<in> set (handle_through_remote_object lds async_execute CORS res req http_method))
        \<longleftrightarrow> http_method \<in> fst ` set (instructions res)
            \<and> (\<exists>arguments. prepare_arguments lds req = Inr arguments)" .
  from dispatched [of CORS' "req\<lparr>origin := org\<rparr>"] dispatched [of CORS req]
  show "(\<exists>i a c t. Execute i a c t
            \<in> set (handle_through_remote_object lds async_execute CORS' res
                     (req\<lparr>origin := org\<rparr>) http_method))
        \<longleftrightarrow> (\<exists>i a c t. Execute i a c t
            \<in> set (handle_through_remote_object lds async_execute CORS res req http_method))"
    by (simp only: prepare_arguments_origin)
qed

theorem legacy_access_control_ignores_origin_witness:
  \<open>legacy_has_access_control [''https://a.example'']
      \<lparr>origin = Some ''https://b.example'', body = ''{"a":1}'', query_arguments = []\<rparr>
     = (True, [])
   \<and> SetStatus 403 \<notin> set (handle_through_remote_object sample_loads
          (\<lambda>i a c t. Inr (PBytes ''ok'')) [''https://a.example'']
          \<lparr>instructions = [(''PUT'', ''/thing/x'')], http_request_as_argument = True\<rparr>
          \<lparr>origin = Some ''https://b.example'', body = ''{"a":1}'', query_arguments = []\<rparr> ''PUT'')
   \<and> ((\<exists>i a c t. Execute i a c t \<in> set (handle_through_remote_object sample_loads
          (\<lambda>i a c t. Inr (PBytes ''ok'')) [''https://a.example'']
          \<lparr>instructions = [(''PUT'', ''/thing/x'')], http_request_as_argument = True\<rparr>
          \<lparr>origin = Some ''https://b.example'', body = ''{"a":1}'', query_arguments = []\<rparr> ''PUT''))
        \<longleftrightarrow> ''PUT'' \<in> fst ` set (instructions
              \<lparr>instructions = [(''PUT'', ''/thing/x'')], http_request_as_argument = True\<rparr>)
            \<and> (\<exists>arguments. prepare_arguments sample_loads
                  \<lparr>origin = Some ''https://b.example'', body = ''{"a":1}'', query_arguments = []\<rparr>
                  = Inr arguments))
   \<and> ((\<exists>i a c t. Execute i a c t \<in> set (handle_through_remote_object sample_loads
          (\<lambda>i a c t. Inr (PBytes ''ok'')) []
          \<lparr>instructions = [(''PUT'', ''/thing/x'')], http_request_as_argument = True\<rparr>
          (\<lparr>origin = Some ''https://b.example'', body = ''{"a":1}'', query_arguments = []\<rparr>
             \<lparr>origin := None\<rparr>) ''PUT''))
        \<longleftrightarrow> (\<exists>i a c t. Execute i a c t \<in> set (handle_through_remote_object sample_loads
          (\<lambda>i a c t. Inr (PBytes ''ok'')) [''https://a.example'']
          \<lparr>instructions = [(''PUT'', ''/thing/x'')], http_request_as_argument = True\<rparr>
          \<lparr>origin = Some ''https://b.example'', body = ''{"a":1}'', query_arguments = []\<rparr> ''PUT'')))\<close>
  by (rule legacy_access_control_ignores_origin)

text \<open>
  A PUT from an origin outside the \<^verbatim>\<open>CORS\<close> list is handed to the broker; the request
  object goes with it when the resource asks for it.
\<close>

lemma legacy_dispatch_example:
  \<open>handle_through_remote_object sample_loads (\<lambda>i a c t. Inr (PBytes ''ok'')) [''https://a.example'']
     \<lparr>instructions = [(''PUT'', ''/thing/x'')], http_request_as_argument = True\<rparr>
     \<lparr>origin = Some ''https://b.example'', body = ''{"a":1}'', query_arguments = []\<rparr> ''PUT''
   = Execute ''/thing/x''
       [(PStr ''a'', PInt 1),
        (PStr ''request'',
         PRequest \<lparr>origin = Some ''https://b.example'', body = ''{"a":1}'', query_arguments = []\<rparr>)]
       [(PStr ''fetch_execution_logs'', PBool False)] PNone
     # set_custom_default_headers @ [Write (PBytes ''ok'')]\<close>
  by (simp add: handle_through_remote_object_def legacy_has_access_control_def legacy_try_def
        prepare_arguments_def sample_loads_def pop_def write_reply_def)

text \<open>
  A PUT whose verb is among the instructions but whose body does not decode: the
  exception is caught, its description written, and the broker is never called.
\<close>

theorem legacy_undecodable_body_not_dispatched_counterexample:
  \<open>handle_through_remote_object sample_loads (\<lambda>i a c t. Inr (PBytes ''ok'')) []
     \<lparr>instructions = [(''PUT'', ''/thing/x'')], http_request_as_argument = False\<rparr>
     \<lparr>origin = Some ''https://a.example'', body = ''{'', query_arguments = []\<rparr> ''PUT''
   = [WriteException DecodeError]\<close>
  by (simp add: handle_through_remote_object_def legacy_has_access_control_def legacy_try_def
        prepare_arguments_def sample_loads_def write_reply_def)

subsection \<open>Event tunnel\<close>

lemma event_loop_append:
  "\<not> snd (event_loop pre) \<Longrightarrow>
     event_loop (pre @ rest) = continue (fst (event_loop pre)) (event_loop rest)"
proof (induction pre rule: event_loop.induct)
  case 1
  then show ?case by (simp add: continue_def)
next
  case (2 e fl rest')
  then show ?case by (simp add: continue_def)
next
  case (3 data fl rest')
  then show ?case by (cases fl) (simp_all add: continue_def)
qed

lemma legacy_event_loop_append:
  "\<not> snd (legacy_event_loop pre) \<Longrightarrow>
     legacy_event_loop (pre @ rest)
       = continue (fst (legacy_event_loop pre)) (legacy_event_loop rest)"
proof (induction pre rule: legacy_event_loop.induct)
  case 1
  then show ?case by (simp add: continue_def)
next
  case (2 e fl rest')
  then show ?case by (simp add: continue_def)
next
  case (3 data fl rest')
  then show ?case by (cases fl; cases "data_truthy data") (simp_all add: continue_def)
qed

lemma event_loop_idle:
  "event_loop (replicate k (Inr None, FlushOk)) = (replicate k Flush, False)"
  by (induction k) (simp_all add: continue_def)

lemma legacy_event_loop_idle:
  "legacy_event_loop (replicate k (Inr None, fl)) = ([], False)"
  by (induction k) simp_all

text \<open>
  C6, as the code has it. The broker delivers a non-empty message \<open>m1\<close>, then \<open>k\<close> polls
  end without a message (a gap longer than the poll interval is at least one such
  poll), then it delivers a non-empty message \<open>m2\<close>; every flush succeeds. The HTTP
  gateway writes the frame of \<open>m1\<close> and flushes, flushes once more for each empty poll,
  then writes the frame of \<open>m2\<close> and flushes: nothing dropped, doubled or out of order,
  and the loop still running. The legacy handler writes and flushes the two frames in
  the same order but does nothing on an empty poll. In the gateway a flush that meets
  the closed stream ends the loop at once, whatever the script holds after it.
\<close>

theorem event_tunnel_heartbeat:
  "(m1 \<noteq> [] \<and> m2 \<noteq> [] \<longrightarrow>
      handle_datastream None asyncio_context
        ([(Inr (Some m1), FlushOk)] @ replicate k (Inr None, FlushOk) @ [(Inr (Some m2), FlushOk)])
        = (SetStatus 200 # [Write (PBytes (data_header m1)), Flush] @ replicate k Flush
             @ [Write (PBytes (data_header m2)), Flush], False)
    \<and> legacy_handle_datastream
        ([(Inr (Some m1), FlushOk)] @ replicate k (Inr None, FlushOk) @ [(Inr (Some m2), FlushOk)])
        = ([Write (PBytes (data_header m1)), Flush, Write (PBytes (data_header m2)), Flush], False))
   \<and> (\<not> snd (event_loop pre) \<longrightarrow>
        event_loop (pre @ (Inr data, StreamClosedError) # rest)
          = (fst (event_loop pre) @ write_frame data @ [Flush], True))"
proof (intro conjI impI)
  assume ne: "m1 \<noteq> [] \<and> m2 \<noteq> []"
  have "event_loop (replicate k (Inr None, FlushOk) @ [(Inr (Some m2), FlushOk)])
          = (replicate k Flush @ [Write (PBytes (data_header m2)), Flush], False)"
    using ne by (simp add: event_loop_append event_loop_idle continue_def)
  with ne show "handle_datastream None asyncio_context
        ([(Inr (Some m1), FlushOk)] @ replicate k (Inr None, FlushOk) @ [(Inr (Some m2), FlushOk)])
        = (SetStatus 200 # [Write (PBytes (data_header m1)), Flush] @ replicate k Flush
             @ [Write (PBytes (data_header m2)), Flush], False)"
    by (simp add: handle_datastream_def continue_def)
  have "legacy_event_loop (replicate k (Inr None, FlushOk) @ [(Inr (Some m2), FlushOk)])
          = ([Write (PBytes (data_header m2)), Flush], False)"
    using ne by (simp add: legacy_event_loop_append legacy_event_loop_idle continue_def)
  with ne show "legacy_handle_datastream
        ([(Inr (Some m1), FlushOk)] @ replicate k (Inr None, FlushOk) @ [(Inr (Some m2), FlushOk)])
        = ([Write (PBytes (data_header m1)), Flush, Write (PBytes (data_header m2)), Flush], False)"
    by (simp add: legacy_handle_datastream_def continue_def)
next
  assume "\<not> snd (event_loop pre)"
  then show "event_loop (pre @ (Inr data, StreamClosedError) # rest)
          = (fst (event_loop pre) @ write_frame data @ [Flush], True)"
    by (simp add: event_loop_append continue_def)
qed

theorem event_tunnel_heartbeat_witness:
  "handle_datastream None True
     ([(Inr (Some ''1''), FlushOk)] @ replicate 2 (Inr None, FlushOk) @ [(Inr (Some ''2''), FlushOk)])
     = (SetStatus 200 # [Write (PBytes (data_header ''1'')), Flush] @ replicate 2 Flush
          @ [Write (PBytes (data_header ''2'')), Flush], False)
   \<and> legacy_handle_datastream
     ([(Inr (Some ''1''), FlushOk)] @ replicate 2 (Inr None, FlushOk) @ [(Inr (Some ''2''), FlushOk)])
     = ([Write (PBytes (data_header ''1'')), Flush, Write (PBytes (data_header ''2'')), Flush], False)
   \<and> event_loop ([(Inr (Some ''1''), FlushOk)] @ (Inr None, StreamClosedError) # [(Inr (Some ''2''), FlushOk)])
     = (fst (event_loop [(Inr (Some ''1''), FlushOk)]) @ write_frame None @ [Flush], True)"
  using event_tunnel_heartbeat [of "''1''" "''2''" True 2 "[(Inr (Some ''1''), FlushOk)]" None
          "[(Inr (Some ''2''), FlushOk)]"]
  by (simp add: continue_def)

text \<open>
  One empty poll between two messages: the legacy handler does not flush in the gap.
  And in the gateway a message that is the empty byte string is taken for an empty
  poll: no frame is written for it.
\<close>

theorem legacy_no_heartbeat_counterexample:
  "legacy_handle_datastream
     [(Inr (Some ''1''), FlushOk), (Inr None, FlushOk), (Inr (Some ''2''), FlushOk)]
     = ([Write (PBytes (data_header ''1'')), Flush, Write (PBytes (data_header ''2'')), Flush], False)
   \<and> handle_datastream None True
     [(Inr (Some []), FlushOk), (Inr None, FlushOk), (Inr (Some ''2''), FlushOk)]
     = ([SetStatus 200, Flush, Flush, Write (PBytes (data_header ''2'')), Flush], False)"
  by (simp add: legacy_handle_datastream_def handle_datastream_def continue_def)

subsection \<open>Serializer fallback\<close>

text \<open>
  C8, at the input where the code departs from it: the member \<open>RED = 1\<close> of an Enum,
  with no \<^verbatim>\<open>json\<close> attribute. The hook \<^verbatim>\<open>JSONSerializer.default\<close> gives its name, the string
  \<open>RED\<close>. But \<^verbatim>\<open>JSONSerializer.dumps\<close> hands the member to msgspec's \<^verbatim>\<open>json.encode\<close>,
  which encodes a member of an Enum by itself, as its value, and calls the hook only for
  an object it does not support: with such an encoder \<open>loads (dumps RED)\<close> is the number
  1 and the hook is never asked.
\<close>

theorem enum_member_encoded_by_value:
  \<open>default_json Map.empty
      \<lparr>json_attr = None, kind = EnumMember ''RED'' (PInt 1), type_of = PyClass ''Color''\<rparr>
     = Inr (PStr ''RED'')
   \<and> loads_dumps (\<lambda>obj. case kind obj of EnumMember name val \<Rightarrow> Some val | _ \<Rightarrow> None)
      sample_wire sample_loads Map.empty
      \<lparr>json_attr = None, kind = EnumMember ''RED'' (PInt 1), type_of = PyClass ''Color''\<rparr>
     = Inr (PInt 1)\<close>
  by (simp add: loads_dumps_def dumps_def default_json_def sample_loads_def sample_wire_def)

end
